theory Spec2Isabelle
  imports Complex_Main "HOL-Library.Word"
begin

text \<open>
  A shallow embedding of the decision-and-execution engine of the image compressor:
  the configuration and result models, the format parameter builder, the metadata-based
  classifier, the strategy selector, the error handler and the executor
  (\<open>process_image\<close>). The file system is an explicit state; the image library
  (decoding, pixel transformations, encoding, the table of registered extensions) is a
  record of functions passed to every operation that uses it. Logging is left out.
\<close>

section \<open>Python values used by the compression engine\<close>

text \<open>
  File contents are byte lists. Python \<open>str\<close> values are modelled as \<open>string\<close>
  holding the UTF-8 bytes of the text; \<open>int\<close> is \<open>int\<close>. A \<open>float\<close> is modelled by an
  exact \<open>real\<close>. The float comparisons that the theorems below depend on compare a
  quotient or a product of file sizes with a short decimal constant; there, exact and
  double-precision arithmetic can differ only when the two sides are equal in exact
  arithmetic or the file size is \<open>2 ^ 44\<close> bytes or more, and in the case of equality
  the conclusions of the theorems hold for either outcome of the comparison.
\<close>

type_synonym bytes = "8 word list"

subsection \<open>Exceptions\<close>

text \<open>
  Exceptions are values; the constructor is the Python class, the argument the message.
  \<open>FileNotFoundError\<close>, \<open>PermissionError\<close> and \<open>SameFileError\<close> are subclasses of
  \<open>OSError\<close>. \<open>ValidationError\<close>, \<open>UnsupportedFormatError\<close> and \<open>ProcessingError\<close>
  are the classes of \<open>exceptions.py\<close>; \<open>PydanticError\<close> is the error raised by a model
  constructor whose field validator or bound rejects a value (it is a \<open>ValueError\<close>).
\<close>

datatype exn =
    FileNotFoundError string
  | PermissionError string
  | SameFileError string
  | OSError string
  | ValueError string
  | PydanticError string
  | ValidationError string
  | UnsupportedFormatError string
  | ProcessingError string
  | ZeroDivisionError string
  | OtherError string

fun exn_str :: "exn \<Rightarrow> string" where
  "exn_str (FileNotFoundError m) = m"
| "exn_str (PermissionError m) = m"
| "exn_str (SameFileError m) = m"
| "exn_str (OSError m) = m"
| "exn_str (ValueError m) = m"
| "exn_str (PydanticError m) = m"
| "exn_str (ValidationError m) = m"
| "exn_str (UnsupportedFormatError m) = m"
| "exn_str (ProcessingError m) = m"
| "exn_str (ZeroDivisionError m) = m"
| "exn_str (OtherError m) = m"

fun is_OSError :: "exn \<Rightarrow> bool" where
  "is_OSError (FileNotFoundError m) = True"
| "is_OSError (PermissionError m) = True"
| "is_OSError (SameFileError m) = True"
| "is_OSError (OSError m) = True"
| "is_OSError e = False"

subsection \<open>Strings\<close>

definition upper_letters :: string where
  "upper_letters = ''ABCDEFGHIJKLMNOPQRSTUVWXYZ''"

definition lower_letters :: string where
  "lower_letters = ''abcdefghijklmnopqrstuvwxyz''"

definition lower_chr :: "char \<Rightarrow> char" where
  "lower_chr c = (case map_of (zip upper_letters lower_letters) c of Some d \<Rightarrow> d | None \<Rightarrow> c)"

definition upper_chr :: "char \<Rightarrow> char" where
  "upper_chr c = (case map_of (zip lower_letters upper_letters) c of Some d \<Rightarrow> d | None \<Rightarrow> c)"

definition lower :: "string \<Rightarrow> string" where
  "lower s = map lower_chr s"

definition upper :: "string \<Rightarrow> string" where
  "upper s = map upper_chr s"

fun digits :: "nat \<Rightarrow> string" where
  "digits n = (if n < 10 then [''0123456789'' ! n] else digits (n div 10) @ [''0123456789'' ! (n mod 10)])"

definition str_int :: "int \<Rightarrow> string" where
  "str_int i = (if i < 0 then ''-'' @ digits (nat (- i)) else digits (nat i))"

text \<open>\<open>s.rfind(c)\<close>: the index of the last occurrence, \<open>None\<close> for Python's \<open>-1\<close>.\<close>

fun rfind :: "char \<Rightarrow> string \<Rightarrow> nat option" where
  "rfind c [] = None"
| "rfind c (x # xs) =
     (case rfind c xs of
        Some i \<Rightarrow> Some (Suc i)
      | None \<Rightarrow> if x = c then Some 0 else None)"

subsection \<open>Paths (\<open>pathlib.Path\<close>)\<close>

text \<open>
  A path is its list of components; the empty list is the path \<open>.\<close>, whose name is
  empty. \<open>suffix\<close>, \<open>stem\<close> and \<open>with_suffix\<close> follow pathlib: the suffix starts at
  the last dot of the name unless that dot is the first or the last character, and
  \<open>with_suffix\<close> raises \<open>ValueError\<close> on an empty name.
\<close>

type_synonym path = "string list"

definition path_name :: "path \<Rightarrow> string" where
  "path_name p = (if p = [] then [] else last p)"

definition path_parent :: "path \<Rightarrow> path" where
  "path_parent p = butlast p"

definition path_join :: "path \<Rightarrow> string \<Rightarrow> path" where
  "path_join d n = d @ [n]"

definition name_suffix :: "string \<Rightarrow> string" where
  "name_suffix n =
     (case rfind (CHR ''.'') n of
        None \<Rightarrow> []
      | Some i \<Rightarrow> if 0 < i \<and> Suc i < length n then drop i n else [])"

definition name_stem :: "string \<Rightarrow> string" where
  "name_stem n =
     (case rfind (CHR ''.'') n of
        None \<Rightarrow> n
      | Some i \<Rightarrow> if 0 < i \<and> Suc i < length n then take i n else n)"

definition path_suffix :: "path \<Rightarrow> string" where
  "path_suffix p = name_suffix (path_name p)"

definition path_stem :: "path \<Rightarrow> string" where
  "path_stem p = name_stem (path_name p)"

definition with_suffix :: "path \<Rightarrow> string \<Rightarrow> exn + path" where
  "with_suffix p s =
     (if path_name p = [] then Inl (ValueError ''path has an empty name'')
      else Inr (path_join (path_parent p) (path_stem p @ s)))"

fun path_str :: "path \<Rightarrow> string" where
  "path_str [] = ''.''"
| "path_str [n] = n"
| "path_str (d # ds) = d @ ''/'' @ path_str ds"

section \<open>Message texts\<close>

text \<open>
  The literal texts of the source (decision reasons, operation names, message prefixes),
  as the UTF-8 bytes of the source file.
\<close>

definition reason_skip_optimized :: string where
  "reason_skip_optimized =
     [CHR 0xE6, CHR 0x96, CHR 0x87, CHR 0xE4, CHR 0xBB, CHR 0xB6, CHR 0xE5, CHR 0xB7,
     CHR 0xB2, CHR 0xE7, CHR 0xBB, CHR 0x8F, CHR 0xE9, CHR 0xAB, CHR 0x98, CHR 0xE5,
     CHR 0xBA, CHR 0xA6, CHR 0xE4, CHR 0xBC, CHR 0x98, CHR 0xE5, CHR 0x8C, CHR 0x96,
     CHR 0xEF, CHR 0xBC, CHR 0x8C, CHR 0xE8, CHR 0xB7, CHR 0xB3, CHR 0xE8, CHR 0xBF,
     CHR 0x87, CHR 0xE5, CHR 0x8E, CHR 0x8B, CHR 0xE7, CHR 0xBC, CHR 0xA9, CHR 0xE9,
     CHR 0x81, CHR 0xBF, CHR 0xE5, CHR 0x85, CHR 0x8D, CHR 0xE8, CHR 0xB4, CHR 0x9F,
     CHR 0xE4, CHR 0xBC, CHR 0x98, CHR 0xE5, CHR 0x8C, CHR 0x96]"

definition reason_skip_small :: string where
  "reason_skip_small =
     [CHR 0xE6, CHR 0x96, CHR 0x87, CHR 0xE4, CHR 0xBB, CHR 0xB6, CHR 0xE5, CHR 0xB7,
     CHR 0xB2, CHR 0xE7, CHR 0xBB, CHR 0x8F, CHR 0xE5, CHR 0xBE, CHR 0x88, CHR 0xE5,
     CHR 0xB0, CHR 0x8F, CHR 0xE6, CHR 0x88, CHR 0x96, CHR 0xE5, CHR 0xB7, CHR 0xB2,
     CHR 0xE7, CHR 0xBB, CHR 0x8F, CHR 0xE9, CHR 0xAB, CHR 0x98, CHR 0xE5, CHR 0xBA,
     CHR 0xA6, CHR 0xE5, CHR 0x8E, CHR 0x8B, CHR 0xE7, CHR 0xBC, CHR 0xA9]"

definition reason_transparent_large :: string where
  "reason_transparent_large =
     [CHR 0xE5, CHR 0xA4, CHR 0xA7, CHR 0xE6, CHR 0x96, CHR 0x87, CHR 0xE4, CHR 0xBB,
     CHR 0xB6, CHR 0xE9, CHR 0x80, CHR 0x8F, CHR 0xE6, CHR 0x98, CHR 0x8E, CHR 0xE5,
     CHR 0x9B, CHR 0xBE, CHR 0xE7, CHR 0x89, CHR 0x87, CHR 0xEF, CHR 0xBC, CHR 0x8C,
     CHR 0xE4, CHR 0xBD, CHR 0xBF, CHR 0xE7, CHR 0x94, CHR 0xA8] @ ''WebP'' @ [CHR 0xE6,
     CHR 0x9C, CHR 0x89, CHR 0xE6, CHR 0x8D, CHR 0x9F, CHR 0xE5, CHR 0x8E, CHR 0x8B,
     CHR 0xE7, CHR 0xBC, CHR 0xA9, CHR 0xE5, CHR 0xB9, CHR 0xB3, CHR 0xE8, CHR 0xA1,
     CHR 0xA1, CHR 0xE8, CHR 0xB4, CHR 0xA8, CHR 0xE9, CHR 0x87, CHR 0x8F, CHR 0xE5,
     CHR 0x92, CHR 0x8C, CHR 0xE5, CHR 0xA4, CHR 0xA7, CHR 0xE5, CHR 0xB0, CHR 0x8F]"

definition reason_transparent_small :: string where
  "reason_transparent_small =
     [CHR 0xE9, CHR 0x80, CHR 0x8F, CHR 0xE6, CHR 0x98, CHR 0x8E, CHR 0xE5, CHR 0x9B,
     CHR 0xBE, CHR 0xE7, CHR 0x89, CHR 0x87, CHR 0xEF, CHR 0xBC, CHR 0x8C, CHR 0xE4,
     CHR 0xBD, CHR 0xBF, CHR 0xE7, CHR 0x94, CHR 0xA8] @ ''PNG'' @ [CHR 0xE6, CHR 0x97,
     CHR 0xA0, CHR 0xE6, CHR 0x8D, CHR 0x9F, CHR 0xE5, CHR 0x8E, CHR 0x8B, CHR 0xE7,
     CHR 0xBC, CHR 0xA9, CHR 0xE4, CHR 0xBF, CHR 0x9D, CHR 0xE6, CHR 0x8C, CHR 0x81,
     CHR 0xE8, CHR 0xB4, CHR 0xA8, CHR 0xE9, CHR 0x87, CHR 0x8F]"

definition reason_photo_lossy :: string where
  "reason_photo_lossy =
     [CHR 0xE7, CHR 0x85, CHR 0xA7, CHR 0xE7, CHR 0x89, CHR 0x87, CHR 0xE7, CHR 0xB1,
     CHR 0xBB, CHR 0xE5, CHR 0x9B, CHR 0xBE, CHR 0xE7, CHR 0x89, CHR 0x87, CHR 0xEF,
     CHR 0xBC, CHR 0x8C, CHR 0xE6, CHR 0x96, CHR 0x87, CHR 0xE4, CHR 0xBB, CHR 0xB6,
     CHR 0xE5, CHR 0xA4, CHR 0xA7, CHR 0xE6, CHR 0x88, CHR 0x96, CHR 0xE5, CHR 0xA4,
     CHR 0x8D, CHR 0xE6, CHR 0x9D, CHR 0x82, CHR 0xEF, CHR 0xBC, CHR 0x8C, CHR 0xE4,
     CHR 0xBD, CHR 0xBF, CHR 0xE7, CHR 0x94, CHR 0xA8] @ ''JPEG'' @ [CHR 0xE6, CHR 0x9C,
     CHR 0x89, CHR 0xE6, CHR 0x8D, CHR 0x9F, CHR 0xE5, CHR 0x8E, CHR 0x8B, CHR 0xE7,
     CHR 0xBC, CHR 0xA9]"

definition reason_photo_small :: string where
  "reason_photo_small =
     [CHR 0xE5, CHR 0xB0, CHR 0x8F, CHR 0xE5, CHR 0xB0, CHR 0xBA, CHR 0xE5, CHR 0xAF,
     CHR 0xB8, CHR 0xE7, CHR 0x85, CHR 0xA7, CHR 0xE7, CHR 0x89, CHR 0x87, CHR 0xEF,
     CHR 0xBC, CHR 0x8C, CHR 0xE5, CHR 0xB0, CHR 0x9D, CHR 0xE8, CHR 0xAF, CHR 0x95] @
     ''WebP'' @ [CHR 0xE6, CHR 0x97, CHR 0xA0, CHR 0xE6, CHR 0x8D, CHR 0x9F, CHR 0xE5,
     CHR 0x8E, CHR 0x8B, CHR 0xE7, CHR 0xBC, CHR 0xA9]"

definition reason_large_other :: string where
  "reason_large_other =
     [CHR 0xE5, CHR 0xA4, CHR 0xA7, CHR 0xE6, CHR 0x96, CHR 0x87, CHR 0xE4, CHR 0xBB,
     CHR 0xB6, CHR 0xEF, CHR 0xBC, CHR 0x8C, CHR 0xE4, CHR 0xBD, CHR 0xBF, CHR 0xE7,
     CHR 0x94, CHR 0xA8] @ ''WebP'' @ [CHR 0xE6, CHR 0x9C, CHR 0x89, CHR 0xE6, CHR 0x8D,
     CHR 0x9F, CHR 0xE5, CHR 0x8E, CHR 0x8B, CHR 0xE7, CHR 0xBC, CHR 0xA9, CHR 0xE5,
     CHR 0xB9, CHR 0xB3, CHR 0xE8, CHR 0xA1, CHR 0xA1, CHR 0xE8, CHR 0xB4, CHR 0xA8,
     CHR 0xE9, CHR 0x87, CHR 0x8F, CHR 0xE5, CHR 0x92, CHR 0x8C, CHR 0xE5, CHR 0xA4,
     CHR 0xA7, CHR 0xE5, CHR 0xB0, CHR 0x8F]"

definition reason_default :: string where
  "reason_default =
     [CHR 0xE4, CHR 0xB8, CHR 0xAD, CHR 0xE5, CHR 0xB0, CHR 0x8F, CHR 0xE6, CHR 0x96,
     CHR 0x87, CHR 0xE4, CHR 0xBB, CHR 0xB6, CHR 0xEF, CHR 0xBC, CHR 0x8C, CHR 0xE4,
     CHR 0xBD, CHR 0xBF, CHR 0xE7, CHR 0x94, CHR 0xA8] @ ''WebP'' @ [CHR 0xE6, CHR 0x97,
     CHR 0xA0, CHR 0xE6, CHR 0x8D, CHR 0x9F, CHR 0xE5, CHR 0x8E, CHR 0x8B, CHR 0xE7,
     CHR 0xBC, CHR 0xA9]"

definition reason_graphic_jpeg :: string where
  "reason_graphic_jpeg =
     ''JPEG'' @ [CHR 0xE5, CHR 0x9B, CHR 0xBE, CHR 0xE7, CHR 0x89, CHR 0x87, CHR 0xE4,
     CHR 0xBD, CHR 0xBF, CHR 0xE7, CHR 0x94, CHR 0xA8, CHR 0xE9, CHR 0x80, CHR 0x82,
     CHR 0xE4, CHR 0xB8, CHR 0xAD, CHR 0xE8, CHR 0xB4, CHR 0xA8, CHR 0xE9, CHR 0x87,
     CHR 0x8F, CHR 0xE5, CHR 0x8E, CHR 0x8B, CHR 0xE7, CHR 0xBC, CHR 0xA9, CHR 0xEF,
     CHR 0xBC, CHR 0x8C, CHR 0xE4, CHR 0xBF, CHR 0x9D, CHR 0xE6, CHR 0x8C, CHR 0x81,
     CHR 0xE6, CHR 0xA0, CHR 0xBC, CHR 0xE5, CHR 0xBC, CHR 0x8F, CHR 0xE4, CHR 0xB8,
     CHR 0x80, CHR 0xE8, CHR 0x87, CHR 0xB4, CHR 0xE6, CHR 0x80, CHR 0xA7]"

definition reason_graphic_png :: string where
  "reason_graphic_png =
     [CHR 0xE6, CHR 0x9E, CHR 0x81, CHR 0xE7, CHR 0xAE, CHR 0x80, CHR 0xE5, CHR 0x8D,
     CHR 0x95, CHR 0xE5, CHR 0xB0, CHR 0x8F, CHR 0xE5, CHR 0x9B, CHR 0xBE, CHR 0xE5,
     CHR 0xBD, CHR 0xA2, CHR 0xEF, CHR 0xBC, CHR 0x8C] @ ''PNG'' @ [CHR 0xE6, CHR 0x97,
     CHR 0xA0, CHR 0xE6, CHR 0x8D, CHR 0x9F, CHR 0xE5, CHR 0x8E, CHR 0x8B, CHR 0xE7,
     CHR 0xBC, CHR 0xA9, CHR 0xE6, CHR 0x95, CHR 0x88, CHR 0xE6, CHR 0x9E, CHR 0x9C,
     CHR 0xE6, CHR 0x9C, CHR 0x80, CHR 0xE4, CHR 0xBD, CHR 0xB3]"

definition reason_graphic_webp :: string where
  "reason_graphic_webp =
     [CHR 0xE7, CHR 0xAE, CHR 0x80, CHR 0xE5, CHR 0x8D, CHR 0x95, CHR 0xE5, CHR 0x9B,
     CHR 0xBE, CHR 0xE5, CHR 0xBD, CHR 0xA2, CHR 0xEF, CHR 0xBC, CHR 0x8C, CHR 0xE4,
     CHR 0xBD, CHR 0xBF, CHR 0xE7, CHR 0x94, CHR 0xA8] @ ''WebP'' @ [CHR 0xE9, CHR 0x80,
     CHR 0x82, CHR 0xE4, CHR 0xB8, CHR 0xAD, CHR 0xE8, CHR 0xB4, CHR 0xA8, CHR 0xE9,
     CHR 0x87, CHR 0x8F, CHR 0xE5, CHR 0x8E, CHR 0x8B, CHR 0xE7, CHR 0xBC, CHR 0xA9]"

definition reason_jpeg_optimize :: string where
  "reason_jpeg_optimize =
     ''JPEG '' @ [CHR 0xE6, CHR 0x97, CHR 0xA0, CHR 0xE6, CHR 0x8D, CHR 0x9F, CHR 0xE4,
     CHR 0xBC, CHR 0x98, CHR 0xE5, CHR 0x8C, CHR 0x96, CHR 0xEF, CHR 0xBC, CHR 0x8C,
     CHR 0xE4, CHR 0xBD, CHR 0xBF, CHR 0xE7, CHR 0x94, CHR 0xA8] @ '' optimize '' @
     [CHR 0xE5, CHR 0x8F, CHR 0x82, CHR 0xE6, CHR 0x95, CHR 0xB0, CHR 0xE5, CHR 0x87,
     CHR 0x8F, CHR 0xE5, CHR 0xB0, CHR 0x8F, CHR 0xE6, CHR 0x96, CHR 0x87, CHR 0xE4,
     CHR 0xBB, CHR 0xB6, CHR 0xE5, CHR 0xA4, CHR 0xA7, CHR 0xE5, CHR 0xB0, CHR 0x8F]"

definition reason_png_small :: string where
  "reason_png_small =
     ''PNG '' @ [CHR 0xE5, CHR 0xB0, CHR 0x8F, CHR 0xE6, CHR 0x96, CHR 0x87, CHR 0xE4,
     CHR 0xBB, CHR 0xB6, CHR 0xE6, CHR 0x97, CHR 0xA0, CHR 0xE6, CHR 0x8D, CHR 0x9F,
     CHR 0xE4, CHR 0xBC, CHR 0x98, CHR 0xE5, CHR 0x8C, CHR 0x96, CHR 0xEF, CHR 0xBC,
     CHR 0x8C, CHR 0xE4, CHR 0xBF, CHR 0x9D, CHR 0xE6, CHR 0x8C, CHR 0x81, CHR 0xE5,
     CHR 0x8E, CHR 0x9F, CHR 0xE6, CHR 0xA0, CHR 0xBC, CHR 0xE5, CHR 0xBC, CHR 0x8F]"

definition reason_png_optimize :: string where
  "reason_png_optimize =
     ''PNG '' @ [CHR 0xE6, CHR 0x97, CHR 0xA0, CHR 0xE6, CHR 0x8D, CHR 0x9F, CHR 0xE4,
     CHR 0xBC, CHR 0x98, CHR 0xE5, CHR 0x8C, CHR 0x96, CHR 0xEF, CHR 0xBC, CHR 0x8C,
     CHR 0xE4, CHR 0xBD, CHR 0xBF, CHR 0xE7, CHR 0x94, CHR 0xA8, CHR 0xE6, CHR 0x9C,
     CHR 0x80, CHR 0xE4, CHR 0xBD, CHR 0xB3, CHR 0xE5, CHR 0x8E, CHR 0x8B, CHR 0xE7,
     CHR 0xBC, CHR 0xA9, CHR 0xE5, CHR 0x8F, CHR 0x82, CHR 0xE6, CHR 0x95, CHR 0xB0]"

definition reason_webp_small :: string where
  "reason_webp_small =
     ''WebP '' @ [CHR 0xE5, CHR 0xB0, CHR 0x8F, CHR 0xE6, CHR 0x96, CHR 0x87, CHR 0xE4,
     CHR 0xBB, CHR 0xB6, CHR 0xE6, CHR 0x97, CHR 0xA0, CHR 0xE6, CHR 0x8D, CHR 0x9F,
     CHR 0xE4, CHR 0xBC, CHR 0x98, CHR 0xE5, CHR 0x8C, CHR 0x96]"

definition reason_webp_quality :: string where
  "reason_webp_quality =
     ''WebP '' @ [CHR 0xE9, CHR 0xAB, CHR 0x98, CHR 0xE8, CHR 0xB4, CHR 0xA8, CHR 0xE9,
     CHR 0x87, CHR 0x8F, CHR 0xE5, CHR 0x8E, CHR 0x8B, CHR 0xE7, CHR 0xBC, CHR 0xA9]"

definition reason_user_config :: string where
  "reason_user_config =
     [CHR 0xE7, CHR 0x94, CHR 0xA8, CHR 0xE6, CHR 0x88, CHR 0xB7, CHR 0xE6, CHR 0x8C,
     CHR 0x87, CHR 0xE5, CHR 0xAE, CHR 0x9A, CHR 0xE9, CHR 0x85, CHR 0x8D, CHR 0xE7,
     CHR 0xBD, CHR 0xAE]"

definition msg_skip_prefix :: string where
  "msg_skip_prefix =
     [CHR 0xE8, CHR 0xB7, CHR 0xB3, CHR 0xE8, CHR 0xBF, CHR 0x87, CHR 0xE5, CHR 0x8E,
     CHR 0x8B, CHR 0xE7, CHR 0xBC, CHR 0xA9] @ '': ''"

definition msg_jpeg_lossless_skip :: string where
  "msg_jpeg_lossless_skip =
     ''JPEG'' @ [CHR 0xE6, CHR 0x97, CHR 0xA0, CHR 0xE6, CHR 0x8D, CHR 0x9F, CHR 0xE6,
     CHR 0xA8, CHR 0xA1, CHR 0xE5, CHR 0xBC, CHR 0x8F, CHR 0xE8, CHR 0xB7, CHR 0xB3,
     CHR 0xE8, CHR 0xBF, CHR 0x87, CHR 0xE5, CHR 0xA4, CHR 0x84, CHR 0xE7, CHR 0x90,
     CHR 0x86]"

definition msg_input_missing :: string where
  "msg_input_missing =
     [CHR 0xE8, CHR 0xBE, CHR 0x93, CHR 0xE5, CHR 0x85, CHR 0xA5, CHR 0xE6, CHR 0x96,
     CHR 0x87, CHR 0xE4, CHR 0xBB, CHR 0xB6, CHR 0xE4, CHR 0xB8, CHR 0x8D, CHR 0xE5,
     CHR 0xAD, CHR 0x98, CHR 0xE5, CHR 0x9C, CHR 0xA8] @ '': ''"

definition op_file_validation :: string where
  "op_file_validation =
     [CHR 0xE6, CHR 0x96, CHR 0x87, CHR 0xE4, CHR 0xBB, CHR 0xB6, CHR 0xE9, CHR 0xAA,
     CHR 0x8C, CHR 0xE8, CHR 0xAF, CHR 0x81]"

definition op_engine :: string where
  "op_engine =
     [CHR 0xE5, CHR 0x9B, CHR 0xBE, CHR 0xE5, CHR 0x83, CHR 0x8F, CHR 0xE5, CHR 0x8E,
     CHR 0x8B, CHR 0xE7, CHR 0xBC, CHR 0xA9, CHR 0xE5, CHR 0xBC, CHR 0x95, CHR 0xE6,
     CHR 0x93, CHR 0x8E]"

definition op_permission_suffix :: string where
  "op_permission_suffix =
     '' - '' @ [CHR 0xE6, CHR 0x9D, CHR 0x83, CHR 0xE9, CHR 0x99, CHR 0x90, CHR 0xE9,
     CHR 0x94, CHR 0x99, CHR 0xE8, CHR 0xAF, CHR 0xAF]"

definition op_system_suffix :: string where
  "op_system_suffix =
     '' - '' @ [CHR 0xE7, CHR 0xB3, CHR 0xBB, CHR 0xE7, CHR 0xBB, CHR 0x9F, CHR 0xE9,
     CHR 0x94, CHR 0x99, CHR 0xE8, CHR 0xAF, CHR 0xAF]"

definition msg_validation_failed :: string where
  "msg_validation_failed =
     [CHR 0xE5, CHR 0x8F, CHR 0x82, CHR 0xE6, CHR 0x95, CHR 0xB0, CHR 0xE9, CHR 0xAA,
     CHR 0x8C, CHR 0xE8, CHR 0xAF, CHR 0x81, CHR 0xE5, CHR 0xA4, CHR 0xB1, CHR 0xE8,
     CHR 0xB4, CHR 0xA5] @ '': ''"

definition msg_unsupported_recommended :: string where
  "msg_unsupported_recommended =
     [CHR 0xE4, CHR 0xB8, CHR 0x8D, CHR 0xE6, CHR 0x94, CHR 0xAF, CHR 0xE6, CHR 0x8C,
     CHR 0x81, CHR 0xE7, CHR 0x9A, CHR 0x84, CHR 0xE6, CHR 0x8E, CHR 0xA8, CHR 0xE8,
     CHR 0x8D, CHR 0x90, CHR 0xE6, CHR 0xA0, CHR 0xBC, CHR 0xE5, CHR 0xBC, CHR 0x8F] @
     '': ''"

section \<open>The configuration model (\<open>models/compression_config.py\<close>)\<close>

datatype QualityMode = LOSSLESS | CUSTOM

record ResizeConfig =
  max_width :: "int option"
  max_height :: "int option"
  maintain_aspect_ratio :: bool
  upscale_allowed :: bool

record CompressionConfig =
  input_path :: path
  output_path :: "path option"
  output_dir :: "path option"
  quality_mode :: QualityMode
  custom_quality :: "int option"
  target_format :: "string option"
  preserve_format :: bool
  resize_config :: "ResizeConfig option"
  optimize :: bool
  progressive :: bool
  strip_metadata :: bool
  keep_orientation :: bool
  fallback_to_original :: bool

text \<open>Truthiness of an optional string: \<open>None\<close> and the empty string are false.\<close>

fun truthy_str :: "string option \<Rightarrow> bool" where
  "truthy_str None = False"
| "truthy_str (Some s) = (s \<noteq> [])"

definition effective_quality :: "CompressionConfig \<Rightarrow> int option" where
  "effective_quality config =
     (case quality_mode config of LOSSLESS \<Rightarrow> None | CUSTOM \<Rightarrow> custom_quality config)"

definition should_resize :: "CompressionConfig \<Rightarrow> bool" where
  "should_resize config =
     (case resize_config config of
        None \<Rightarrow> False
      | Some rc \<Rightarrow> max_width rc \<noteq> None \<or> max_height rc \<noteq> None)"

text \<open>
  \<open>_get_quality_suffix\<close>: \<open>effective_quality\<close> is tested for truth, so \<open>None\<close> and \<open>0\<close>
  both give the plain suffix.
\<close>

definition get_quality_suffix :: "CompressionConfig \<Rightarrow> string" where
  "get_quality_suffix config =
     (if quality_mode config \<noteq> LOSSLESS then
        (case effective_quality config of
           None \<Rightarrow> ''_compress''
         | Some q \<Rightarrow> if q \<noteq> 0 then ''_compress_'' @ str_int q else ''_compress'')
      else ''_compress'')"

definition preferred_extensions :: "(string \<times> string) list" where
  "preferred_extensions =
     [(''JPEG'', ''.jpg''), (''PNG'', ''.png''), (''WEBP'', ''.webp''), (''GIF'', ''.gif''),
      (''BMP'', ''.bmp''), (''TIFF'', ''.tiff''), (''ICO'', ''.ico'')]"

text \<open>
  The codec's table \<open>Image.registered_extensions()\<close> (extension to format name) is a
  parameter \<open>reg\<close> of every function that reads it. The loop of
  \<open>_get_format_extension\<close> returns at the first entry whose format matches.
\<close>

fun first_extension :: "(string \<times> string) list \<Rightarrow> string \<Rightarrow> string option" where
  "first_extension [] format_upper = None"
| "first_extension ((ext, fmt) # rest) format_upper =
     (if fmt \<noteq> [] \<and> upper fmt = format_upper then Some (lower ext)
      else first_extension rest format_upper)"

definition get_format_extension :: "(string \<times> string) list \<Rightarrow> string \<Rightarrow> string" where
  "get_format_extension reg format_name =
     (let format_upper = upper format_name in
      case map_of preferred_extensions format_upper of
        Some ext \<Rightarrow> ext
      | None \<Rightarrow>
          (case first_extension reg format_upper of
             Some ext \<Rightarrow> ext
           | None \<Rightarrow> ''.jpg''))"

definition determine_extension ::
  "(string \<times> string) list \<Rightarrow> CompressionConfig \<Rightarrow> path \<Rightarrow> string option \<Rightarrow> string" where
  "determine_extension reg config original_path format_override =
     (if truthy_str format_override then get_format_extension reg (the format_override)
      else if truthy_str (target_format config) then get_format_extension reg (the (target_format config))
      else if preserve_format config then path_suffix original_path
      else path_suffix original_path)"

definition generate_auto_path ::
  "(string \<times> string) list \<Rightarrow> CompressionConfig \<Rightarrow> path \<Rightarrow> string option \<Rightarrow> bool \<Rightarrow> path" where
  "generate_auto_path reg config original_path format_override skip_suffix =
     (let out_dir = (case output_dir config of Some d \<Rightarrow> d | None \<Rightarrow> path_parent original_path);
          base_name = path_stem original_path;
          base_name = (if \<not> skip_suffix then base_name @ get_quality_suffix config else base_name);
          ext = determine_extension reg config original_path format_override
      in path_join out_dir (base_name @ ext))"

definition get_output_path ::
  "(string \<times> string) list \<Rightarrow> CompressionConfig \<Rightarrow> path \<Rightarrow> string option \<Rightarrow> bool \<Rightarrow> path" where
  "get_output_path reg config original_path format_override skip_suffix =
     (case output_path config of
        Some p \<Rightarrow> p
      | None \<Rightarrow> generate_auto_path reg config original_path format_override skip_suffix)"

section \<open>Format parameter builder (\<open>core/formats.py\<close>)\<close>

text \<open>A save-parameter dictionary maps keyword names to Python values.\<close>

datatype pval = PInt int | PBool bool | PStr string | PBytes bytes | PNone

type_synonym params = "string \<rightharpoonup> pval"

fun truthy :: "pval option \<Rightarrow> bool" where
  "truthy None = False"
| "truthy (Some (PInt i)) = (i \<noteq> 0)"
| "truthy (Some (PBool b)) = b"
| "truthy (Some (PStr s)) = (s \<noteq> [])"
| "truthy (Some (PBytes b)) = (b \<noteq> [])"
| "truthy (Some PNone) = False"

definition jpeg_extensions :: "string set" where
  "jpeg_extensions = {''.jpg'', ''.jpeg''}"

definition modern_extensions :: "string set" where
  "modern_extensions = {''.webp'', ''.avif'', ''.heif''}"

text \<open>
  \<open>get_jpeg_params\<close>. The first definition is the part of the function after the
  quality has been chosen (the parameter dictionary, the subsampling ladder and the
  metadata switch); the second is the function, with its early return for a JPEG input
  in lossless mode.
\<close>

definition jpeg_params_of :: "int option \<Rightarrow> CompressionConfig \<Rightarrow> int \<Rightarrow> params" where
  "jpeg_params_of quality config jpeg_quality =
     (let params = [''quality'' \<mapsto> PInt jpeg_quality,
                    ''optimize'' \<mapsto> PBool (optimize config),
                    ''progressive'' \<mapsto> PBool (if quality \<noteq> None then progressive config else False)];
          params =
            (if quality = None \<and> lower (path_suffix (input_path config)) \<in> jpeg_extensions then params
             else if jpeg_quality \<ge> 95 then params(''subsampling'' \<mapsto> PInt 1)
             else if jpeg_quality \<ge> 85 then params(''subsampling'' \<mapsto> PInt 1)
             else params(''subsampling'' \<mapsto> PInt 2))
      in if strip_metadata config
         then params(''exif'' \<mapsto> PBytes [], ''icc_profile'' \<mapsto> PNone)
         else params)"

definition get_jpeg_params :: "int option \<Rightarrow> CompressionConfig \<Rightarrow> params \<times> int option" where
  "get_jpeg_params quality config =
     (case quality of
        None \<Rightarrow>
          if lower (path_suffix (input_path config)) \<in> jpeg_extensions
          then ([''skip_processing'' \<mapsto> PBool True], None)
          else
            let input_ext = lower (path_suffix (input_path config));
                jpeg_quality = (if input_ext \<in> modern_extensions then 75 else 85)
            in (jpeg_params_of quality config jpeg_quality, Some jpeg_quality)
      | Some q \<Rightarrow>
          let jpeg_quality = max 1 (min 100 q);
              jpeg_quality = (if jpeg_quality = 100 then 98 else jpeg_quality)
          in (jpeg_params_of quality config jpeg_quality, Some jpeg_quality))"

definition get_png_params :: "int option \<Rightarrow> CompressionConfig \<Rightarrow> params" where
  "get_png_params quality config =
     (let compress_level = (if quality = None then 9 else 9)
      in [''optimize'' \<mapsto> PBool (optimize config),
          ''compress_level'' \<mapsto> PInt compress_level,
          ''bits'' \<mapsto> PInt 8])"

definition get_webp_params :: "int option \<Rightarrow> CompressionConfig \<Rightarrow> params" where
  "get_webp_params quality config =
     (case quality of
        None \<Rightarrow>
          [''lossless'' \<mapsto> PBool True, ''quality'' \<mapsto> PInt 30,
           ''method'' \<mapsto> PInt 2, ''exact'' \<mapsto> PBool True]
      | Some q \<Rightarrow>
          let webp_quality = max 1 (min 100 q);
              params = [''quality'' \<mapsto> PInt webp_quality, ''method'' \<mapsto> PInt 6]
          in if webp_quality \<ge> 85 then params(''alpha_quality'' \<mapsto> PInt 100)
             else if webp_quality \<ge> 70 then params(''alpha_quality'' \<mapsto> PInt (min 100 (webp_quality + 10)))
             else params(''alpha_quality'' \<mapsto> PInt webp_quality))"

definition get_avif_params :: "int option \<Rightarrow> CompressionConfig \<Rightarrow> params" where
  "get_avif_params quality config =
     (case quality of
        None \<Rightarrow> [''lossless'' \<mapsto> PBool True, ''quality'' \<mapsto> PInt 100, ''speed'' \<mapsto> PInt 4]
      | Some q \<Rightarrow>
          let avif_quality = max 1 (min 100 q);
              params = [''quality'' \<mapsto> PInt avif_quality];
              params =
                (if avif_quality \<ge> 90 then params(''speed'' \<mapsto> PInt 2)
                 else if avif_quality \<ge> 70 then params(''speed'' \<mapsto> PInt 4)
                 else params(''speed'' \<mapsto> PInt 6))
          in if avif_quality \<ge> 95 then params(''subsampling'' \<mapsto> PStr ''4:4:4'')
             else if avif_quality \<ge> 80 then params(''subsampling'' \<mapsto> PStr ''4:2:2'')
             else params(''subsampling'' \<mapsto> PStr ''4:2:0''))"

definition get_heif_params :: "int option \<Rightarrow> CompressionConfig \<Rightarrow> params" where
  "get_heif_params quality config =
     (case quality of
        None \<Rightarrow> [''quality'' \<mapsto> PInt 100]
      | Some q \<Rightarrow> [''quality'' \<mapsto> PInt (max 1 (min 100 q))])"

definition get_save_parameters :: "string \<Rightarrow> CompressionConfig \<Rightarrow> params \<times> int option" where
  "get_save_parameters format_name config =
     (let quality = effective_quality config in
      if format_name = ''JPEG'' then get_jpeg_params quality config
      else if format_name = ''PNG'' then (get_png_params quality config, quality)
      else if format_name = ''WEBP'' then (get_webp_params quality config, quality)
      else if format_name = ''AVIF'' then (get_avif_params quality config, quality)
      else if format_name = ''HEIF'' then (get_heif_params quality config, quality)
      else (Map.empty, quality))"

section \<open>Image metadata (\<open>models/image_metadata.py\<close>)\<close>

record BasicImageInfo =
  file_path :: path
  file_size :: int
  format :: string
  mode :: string
  width :: int
  height :: int
  has_transparency :: bool
  frame_count :: int

record HistogramData =
  red_histogram :: "int list"
  green_histogram :: "int list"
  blue_histogram :: "int list"
  luminance_histogram :: "int list"

text \<open>\<open>brightness_stats\<close> is a dictionary, empty when there is no luminance data.\<close>

definition brightness_stats :: "HistogramData \<Rightarrow> (string \<rightharpoonup> real)" where
  "brightness_stats h =
     (let lum = luminance_histogram h in
      if lum = [] then Map.empty
      else
        let total_pixels = sum_list lum in
        if total_pixels = 0 then Map.empty
        else
          let weighted_sum = sum_list (map2 (\<lambda>i count. int i * count) [0..<length lum] lum);
              mean_brightness = real_of_int weighted_sum / real_of_int total_pixels / 255;
              dark_pixels = sum_list (take 85 lum);
              mid_pixels = sum_list (take 85 (drop 85 lum));
              bright_pixels = sum_list (drop 170 lum)
          in [''mean_brightness'' \<mapsto> mean_brightness,
              ''dark_ratio'' \<mapsto> real_of_int dark_pixels / real_of_int total_pixels,
              ''mid_ratio'' \<mapsto> real_of_int mid_pixels / real_of_int total_pixels,
              ''bright_ratio'' \<mapsto> real_of_int bright_pixels / real_of_int total_pixels])"

record ComplexityMetrics =
  edge_density :: real
  color_diversity :: real
  texture_complexity :: real
  compression_difficulty :: real

definition overall_complexity :: "ComplexityMetrics \<Rightarrow> string" where
  "overall_complexity c =
     (let avg_complexity = (edge_density c + color_diversity c + texture_complexity c) / 3 in
      if avg_complexity \<ge> 0.8 then ''very_high''
      else if avg_complexity \<ge> 0.6 then ''high''
      else if avg_complexity \<ge> 0.4 then ''medium''
      else if avg_complexity \<ge> 0.2 then ''low''
      else ''very_low'')"

text \<open>
  Of \<open>ImageMetadata\<close> the engine reads \<open>basic_info\<close>, \<open>histogram\<close> and \<open>complexity\<close>;
  the EXIF, ICC and XMP records are carried along and never inspected, and are left out.
\<close>

record ImageMetadata =
  basic_info :: BasicImageInfo
  histogram :: "HistogramData option"
  complexity :: "ComplexityMetrics option"

record ImageCharacteristics =
  is_simple_graphic :: bool
  is_photo_like :: bool
  color_count :: int
  complexity_score :: real
  ch_has_transparency :: bool

text \<open>
  The constructor of \<open>ImageCharacteristics\<close> enforces the field bounds
  \<open>color_count \<ge> 0\<close> and \<open>0 \<le> complexity_score \<le> 1\<close>.
\<close>

definition ImageCharacteristics_new ::
  "bool \<Rightarrow> bool \<Rightarrow> int \<Rightarrow> real \<Rightarrow> bool \<Rightarrow> exn + ImageCharacteristics" where
  "ImageCharacteristics_new simple photo cc score transparent =
     (if cc < 0 \<or> score < 0 \<or> score > 1
      then Inl (PydanticError ''ImageCharacteristics: field out of range'')
      else Inr \<lparr>is_simple_graphic = simple, is_photo_like = photo, color_count = cc,
                complexity_score = score, ch_has_transparency = transparent\<rparr>)"

section \<open>Characteristics classifier (\<open>core/image_info.py\<close>)\<close>

definition analyze_image_from_metadata :: "ImageMetadata \<Rightarrow> exn + ImageCharacteristics" where
  "analyze_image_from_metadata metadata =
     (let (simple, photo, score) =
            (case complexity metadata of
               None \<Rightarrow> (False, False, 0)
             | Some c \<Rightarrow>
                 let simple = (overall_complexity c = ''simple'');
                     photo = (overall_complexity c \<in> {''moderate'', ''complex''});
                     (simple, photo) =
                       (if color_diversity c < 0.1 then (True, photo)
                        else if color_diversity c > 0.5 then (simple, True)
                        else (simple, photo))
                 in (simple, photo, texture_complexity c));
          photo =
            (case histogram metadata of
               None \<Rightarrow> photo
             | Some h \<Rightarrow>
                 (case brightness_stats h ''mid_ratio'' of
                    None \<Rightarrow> photo
                  | Some mid_ratio \<Rightarrow> if mid_ratio > 0.3 then True else photo))
      in ImageCharacteristics_new simple photo 0 score (has_transparency (basic_info metadata)))"

section \<open>Compression decisions and the strategy selector (\<open>core/strategy.py\<close>)\<close>

datatype StrategyType = S_LOSSLESS | S_LOSSY | S_ADAPTIVE | S_SKIP

record CompressionDecision =
  strategy_type :: StrategyType
  recommended_quality :: "int option"
  recommended_format :: "string option"
  reason :: string
  skip_compression :: bool

text \<open>
  The set of format names the codec registers, upper-cased, as both validators of
  \<open>compression_config.py\<close> compute it.
\<close>

definition supported_formats :: "(string \<times> string) list \<Rightarrow> string set" where
  "supported_formats reg = set (map (\<lambda>(ext, fmt). upper fmt) (filter (\<lambda>(ext, fmt). fmt \<noteq> []) reg))"

text \<open>
  Constructing a \<open>CompressionDecision\<close> runs the bound \<open>1 \<le> recommended_quality \<le> 100\<close>
  and the validator of \<open>recommended_format\<close>, which rejects a name that is not a
  registered format and stores the accepted name upper-cased.
\<close>

definition CompressionDecision_new ::
  "(string \<times> string) list \<Rightarrow> StrategyType \<Rightarrow> int option \<Rightarrow> string option \<Rightarrow> string \<Rightarrow> bool
     \<Rightarrow> exn + CompressionDecision" where
  "CompressionDecision_new reg st quality fmt rsn skip =
     (if (case quality of None \<Rightarrow> False | Some q \<Rightarrow> q < 1 \<or> 100 < q)
      then Inl (PydanticError ''recommended_quality: out of range'')
      else
        (case fmt of
           None \<Rightarrow>
             Inr \<lparr>strategy_type = st, recommended_quality = quality, recommended_format = None,
                  reason = rsn, skip_compression = skip\<rparr>
         | Some v \<Rightarrow>
             if upper v \<notin> supported_formats reg
             then Inl (PydanticError (msg_unsupported_recommended @ v))
             else Inr \<lparr>strategy_type = st, recommended_quality = quality,
                       recommended_format = Some (if v \<noteq> [] then upper v else v),
                       reason = rsn, skip_compression = skip\<rparr>))"

text \<open>The application defaults of \<open>config.py\<close> that the engine reads.\<close>

record AppConfig =
  JPEG_QUALITY :: int
  WEBP_QUALITY :: int
  SIZE_THRESHOLD_MB :: real
  COMPLEXITY_THRESHOLD :: real
  PREFER_QUALITY :: bool

definition default_app_config :: AppConfig where
  "default_app_config =
     \<lparr>JPEG_QUALITY = 85, WEBP_QUALITY = 75, SIZE_THRESHOLD_MB = 5,
      COMPLEXITY_THRESHOLD = 0.7, PREFER_QUALITY = True\<rparr>"

record CompressionStrategy =
  prefer_quality :: bool
  size_threshold_mb :: real
  complexity_threshold :: real

definition CompressionStrategy_init ::
  "AppConfig \<Rightarrow> bool option \<Rightarrow> real option \<Rightarrow> real option \<Rightarrow> CompressionStrategy" where
  "CompressionStrategy_init app pq stm ct =
     \<lparr>prefer_quality = (case pq of Some b \<Rightarrow> b | None \<Rightarrow> PREFER_QUALITY app),
      size_threshold_mb = (case stm of Some x \<Rightarrow> x | None \<Rightarrow> SIZE_THRESHOLD_MB app),
      complexity_threshold = (case ct of Some x \<Rightarrow> x | None \<Rightarrow> COMPLEXITY_THRESHOLD app)\<rparr>"

definition should_skip_compression :: "ImageMetadata \<Rightarrow> bool" where
  "should_skip_compression metadata =
     (let basic = basic_info metadata in
      if file_size basic < 5 * 1024 then True
      else if format basic \<in> {''WEBP'', ''JPEG''} \<and> file_size basic < 50 * 1024 then True
      else if format basic = ''PNG'' \<and> file_size basic < 100 * 1024 then
        (let pixel_count = width basic * height basic;
             bytes_per_pixel =
               (if pixel_count > 0 then real_of_int (file_size basic) / real_of_int pixel_count
                else 0)
         in if bytes_per_pixel < 1.5 then True else False)
      else False)"

definition try_original_format_optimization ::
  "(string \<times> string) list \<Rightarrow> ImageMetadata \<Rightarrow> exn + CompressionDecision option" where
  "try_original_format_optimization reg metadata =
     (let basic = basic_info metadata;
          file_size_mb = real_of_int (file_size basic) / (1024 * 1024)
      in if format basic = ''JPEG'' then
           map_sum id Some
             (CompressionDecision_new reg S_LOSSLESS None (Some ''JPEG'') reason_jpeg_optimize False)
         else if format basic = ''PNG'' then
           (if file_size_mb < 0.2 then
              map_sum id Some
                (CompressionDecision_new reg S_LOSSLESS None (Some ''PNG'') reason_png_small False)
            else
              map_sum id Some
                (CompressionDecision_new reg S_LOSSLESS None (Some ''PNG'') reason_png_optimize False))
         else if format basic = ''WEBP'' then
           (if file_size_mb < 0.2 then
              map_sum id Some
                (CompressionDecision_new reg S_LOSSLESS None (Some ''WEBP'') reason_webp_small False)
            else
              map_sum id Some
                (CompressionDecision_new reg S_LOSSY (Some 85) (Some ''WEBP'') reason_webp_quality False))
         else Inr None)"

definition estimate_color_count :: "ImageMetadata \<Rightarrow> int" where
  "estimate_color_count metadata =
     (let basic = basic_info metadata;
          pixel_count = width basic * height basic
      in case complexity metadata of
           None \<Rightarrow> min 4096 (pixel_count div 100)
         | Some c \<Rightarrow>
             if overall_complexity c \<in> {''very_low'', ''simple''}
             then min 256 (max 16 (pixel_count div 1000))
             else if overall_complexity c = ''complex''
             then min 65536 (pixel_count div 10)
             else min 4096 (pixel_count div 100))"

definition handle_simple_graphic ::
  "(string \<times> string) list \<Rightarrow> ImageMetadata \<Rightarrow> exn + CompressionDecision" where
  "handle_simple_graphic reg metadata =
     (let basic = basic_info metadata;
          color_count = estimate_color_count metadata;
          file_size_mb = real_of_int (file_size basic) / (1024 * 1024)
      in if format basic = ''JPEG'' \<and> file_size_mb > 0.1 then
           CompressionDecision_new reg S_LOSSY (Some 75) (Some ''JPEG'') reason_graphic_jpeg False
         else if color_count \<le> 64 \<and> file_size_mb < 0.05 then
           CompressionDecision_new reg S_LOSSLESS None (Some ''PNG'') reason_graphic_png False
         else
           CompressionDecision_new reg S_LOSSY (Some 80) (Some ''WEBP'') reason_graphic_webp False)"

text \<open>
  The decision factors, in the order of the tuple that \<open>_make_decision\<close> matches on.
  The cases of a \<open>case\<close> expression are tried in order, as those of \<open>match\<close> are; the
  source's alternative pattern for photos is written as two cases with the same body.
\<close>

record factors =
  f_has_transparency :: bool
  f_is_simple_graphic :: bool
  f_is_photo :: bool
  f_large_file :: bool
  f_high_complexity :: bool

definition make_decision ::
  "(string \<times> string) list \<Rightarrow> AppConfig \<Rightarrow> CompressionStrategy \<Rightarrow> factors \<Rightarrow> ImageMetadata
     \<Rightarrow> exn + CompressionDecision" where
  "make_decision reg app self fs metadata =
     (if should_skip_compression metadata then
        CompressionDecision_new reg S_SKIP None None reason_skip_small True
      else
        (case (f_has_transparency fs, f_is_simple_graphic fs, f_is_photo fs, f_large_file fs,
               f_high_complexity fs) of
           (True, _, _, True, _) \<Rightarrow>
             CompressionDecision_new reg S_LOSSY (Some 90) (Some ''WEBP'')
               reason_transparent_large False
         | (True, _, _, False, _) \<Rightarrow>
             CompressionDecision_new reg S_LOSSLESS None (Some ''PNG'')
               reason_transparent_small False
         | (False, True, _, _, _) \<Rightarrow> handle_simple_graphic reg metadata
         | (False, False, True, True, _) \<Rightarrow>
             CompressionDecision_new reg S_LOSSY
               (Some (if prefer_quality self then JPEG_QUALITY app else 75)) (Some ''JPEG'')
               reason_photo_lossy False
         | (False, False, True, _, True) \<Rightarrow>
             CompressionDecision_new reg S_LOSSY
               (Some (if prefer_quality self then JPEG_QUALITY app else 75)) (Some ''JPEG'')
               reason_photo_lossy False
         | (False, False, True, False, False) \<Rightarrow>
             CompressionDecision_new reg S_LOSSLESS None (Some ''WEBP'') reason_photo_small False
         | (False, False, False, True, _) \<Rightarrow>
             CompressionDecision_new reg S_LOSSY (Some (WEBP_QUALITY app)) (Some ''WEBP'')
               reason_large_other False
         | _ \<Rightarrow>
             CompressionDecision_new reg S_LOSSLESS None (Some ''WEBP'') reason_default False))"

text \<open>
  \<open>_analyze_and_decide\<close>. The factor dictionary calls the classifier (twice, for
  \<open>is_photo\<close> and \<open>is_simple_graphic\<close>; the classifier is a pure function of the
  metadata), so a classifier error surfaces before \<open>_make_decision\<close> runs.
\<close>

definition analyze_and_decide ::
  "(string \<times> string) list \<Rightarrow> AppConfig \<Rightarrow> CompressionStrategy \<Rightarrow> ImageMetadata
     \<Rightarrow> exn + CompressionDecision" where
  "analyze_and_decide reg app self metadata =
     (let basic = basic_info metadata;
          file_size_mb = real_of_int (file_size basic) / (1024 * 1024)
      in if should_skip_compression metadata then
           CompressionDecision_new reg S_SKIP None (Some (format basic)) reason_skip_optimized True
         else
           (case try_original_format_optimization reg metadata of
              Inl e \<Rightarrow> Inl e
            | Inr (Some original_format_decision) \<Rightarrow> Inr original_format_decision
            | Inr None \<Rightarrow>
                (case analyze_image_from_metadata metadata of
                   Inl e \<Rightarrow> Inl e
                 | Inr characteristics \<Rightarrow>
                     make_decision reg app self
                       \<lparr>f_has_transparency = has_transparency basic,
                        f_is_simple_graphic = is_simple_graphic characteristics,
                        f_is_photo = is_photo_like characteristics,
                        f_large_file = (file_size_mb > size_threshold_mb self),
                        f_high_complexity =
                          (case complexity metadata of
                             None \<Rightarrow> False
                           | Some c \<Rightarrow> overall_complexity c = ''complex'')\<rparr>
                       metadata)))"

definition suggest_format ::
  "CompressionStrategy \<Rightarrow> ImageMetadata \<Rightarrow> string option \<Rightarrow> exn + string" where
  "suggest_format self metadata user_preference =
     (if truthy_str user_preference then Inr (upper (the user_preference))
      else
        (case analyze_image_from_metadata metadata of
           Inl e \<Rightarrow> Inl e
         | Inr characteristics \<Rightarrow>
             Inr (case (has_transparency (basic_info metadata), is_photo_like characteristics,
                        is_simple_graphic characteristics, prefer_quality self) of
                    (True, _, _, _) \<Rightarrow> (if prefer_quality self then ''WEBP'' else ''PNG'')
                  | (False, True, _, True) \<Rightarrow> ''WEBP''
                  | (False, True, _, False) \<Rightarrow> ''JPEG''
                  | (False, False, True, _) \<Rightarrow> ''PNG''
                  | _ \<Rightarrow> ''WEBP'')))"

definition apply_user_config ::
  "(string \<times> string) list \<Rightarrow> CompressionStrategy \<Rightarrow> CompressionConfig \<Rightarrow> ImageMetadata
     \<Rightarrow> exn + CompressionDecision" where
  "apply_user_config reg self config metadata =
     (let quality = effective_quality config in
      case suggest_format self metadata (target_format config) of
        Inl e \<Rightarrow> Inl e
      | Inr format_hint \<Rightarrow>
          let st = (if quality = None then S_LOSSLESS else S_LOSSY)
          in CompressionDecision_new reg st quality (Some format_hint) reason_user_config False)"

definition select_optimal ::
  "(string \<times> string) list \<Rightarrow> AppConfig \<Rightarrow> CompressionStrategy \<Rightarrow> ImageMetadata
     \<Rightarrow> CompressionConfig option \<Rightarrow> exn + CompressionDecision" where
  "select_optimal reg app self metadata config =
     (case config of
        None \<Rightarrow> analyze_and_decide reg app self metadata
      | Some c \<Rightarrow>
          if quality_mode c \<noteq> LOSSLESS then apply_user_config reg self c metadata
          else analyze_and_decide reg app self metadata)"

section \<open>The file system\<close>

text \<open>
  The file system maps the path of each regular file to its contents. Directories are
  not modelled, so \<open>mkdir(parents=True, exist_ok=True)\<close> has no effect here. A path
  stands for the file it names: paths are taken as resolved and every file has one name
  (no links, no second spelling of a path), so that \<open>os.path.samefile\<close> is equality
  of paths. A destination that names the input file in another way is, in these terms,
  the input path itself. \<open>shutil.copy2\<close> refuses to copy a file onto itself;
  \<open>Path.rename\<close> replaces an existing target.
\<close>

type_synonym filesystem = "path \<rightharpoonup> bytes"

definition path_exists :: "filesystem \<Rightarrow> path \<Rightarrow> bool" where
  "path_exists fs p = (fs p \<noteq> None)"

definition stat_size :: "filesystem \<Rightarrow> path \<Rightarrow> exn + int" where
  "stat_size fs p =
     (case fs p of
        None \<Rightarrow> Inl (FileNotFoundError (path_str p))
      | Some b \<Rightarrow> Inr (int (length b)))"

definition samefile :: "path \<Rightarrow> path \<Rightarrow> bool" where
  "samefile p q = (p = q)"

definition copy2 :: "filesystem \<Rightarrow> path \<Rightarrow> path \<Rightarrow> exn + filesystem" where
  "copy2 fs src dst =
     (if samefile src dst then Inl (SameFileError (path_str src))
      else
        (case fs src of
           None \<Rightarrow> Inl (FileNotFoundError (path_str src))
         | Some b \<Rightarrow> Inr (fs(dst \<mapsto> b))))"

definition unlink :: "filesystem \<Rightarrow> path \<Rightarrow> exn + filesystem" where
  "unlink fs p =
     (case fs p of
        None \<Rightarrow> Inl (FileNotFoundError (path_str p))
      | Some b \<Rightarrow> Inr (fs(p := None)))"

definition rename :: "filesystem \<Rightarrow> path \<Rightarrow> path \<Rightarrow> exn + filesystem" where
  "rename fs src dst =
     (case fs src of
        None \<Rightarrow> Inl (FileNotFoundError (path_str src))
      | Some b \<Rightarrow> Inr ((fs(src := None))(dst \<mapsto> b)))"

section \<open>The codec capability\<close>

text \<open>
  A decoded image, as far as the engine looks at it: the format attribute (absent on an
  image that was not read from a file), the colour mode, the size, whether the info
  dictionary has a \<open>transparency\<close> entry, the \<open>n_frames\<close> attribute when there is one,
  and the pixel data.
\<close>

record Image =
  img_format :: "string option"
  img_mode :: string
  img_size :: "int \<times> int"
  img_info_transparency :: bool
  img_n_frames :: "int option"
  img_pixels :: bytes

text \<open>
  The outcome of running the writer of a format on an image: the bytes of the file; an
  exception raised before the destination is opened (the format has no writer); or an
  exception raised by the writer, together with the bytes it had written by then.
\<close>

datatype save_outcome = Saved bytes | Refused exn | SaveFailed exn bytes

text \<open>
  The image library is an external capability, given as a record of functions:
  the extension table, decoding, EXIF transposition, the two best-effort analyses of the
  extractor (each returns \<open>None\<close> when its computation fails), resizing and colour-mode
  preparation, and encoding. \<open>resize_image\<close> stands for \<open>_resize_image\<close>, which
  computes the new size in floating point and calls the library. \<open>encode\<close> takes the
  format whose writer runs, and then the image and the arguments of
  \<open>optimizer.optimize_parameters\<close>, whose result is the parameters of the save: the
  optimizer only rewrites the save parameters, which nothing but the writer reads, and it
  cannot raise (its body is wrapped in a handler that returns the base parameters).
\<close>

record Codec =
  registered_extensions :: "(string \<times> string) list"
  decode :: "bytes \<Rightarrow> exn + Image"
  exif_transpose :: "Image \<Rightarrow> exn + Image"
  extract_histogram :: "Image \<Rightarrow> HistogramData option"
  calculate_complexity :: "Image \<Rightarrow> ComplexityMetrics option"
  resize_image :: "Image \<Rightarrow> ResizeConfig option \<Rightarrow> exn + Image"
  prepare_for_format :: "Image \<Rightarrow> string \<Rightarrow> exn + Image"
  encode :: "string \<Rightarrow> Image \<Rightarrow> string \<Rightarrow> CompressionConfig \<Rightarrow> ImageMetadata \<Rightarrow> params \<Rightarrow> save_outcome"

definition image_open :: "Codec \<Rightarrow> filesystem \<Rightarrow> path \<Rightarrow> exn + Image" where
  "image_open codec fs p =
     (case fs p of
        None \<Rightarrow> Inl (FileNotFoundError (path_str p))
      | Some b \<Rightarrow> decode codec b)"

text \<open>
  \<open>Image.save\<close> as the executor calls it: with the destination path and the save
  parameters, and no \<open>format\<close> argument. The library then takes the format from the
  destination: it looks the lower-cased extension of the path up in its extension table
  and raises \<open>ValueError\<close> when the extension is not registered, before it opens the
  file. Otherwise it opens the destination for writing, which empties a file that is
  there, and runs the writer of that format. When the writer raises, the library removes
  the file if this call created it; a file that was there before stays, with what the
  writer had written.
\<close>

definition image_save ::
  "Codec \<Rightarrow> filesystem \<Rightarrow> Image \<Rightarrow> path \<Rightarrow> string \<Rightarrow> CompressionConfig \<Rightarrow> ImageMetadata
     \<Rightarrow> params \<Rightarrow> (exn + unit) \<times> filesystem" where
  "image_save codec fs img dest target config metadata save_params =
     (case map_of (registered_extensions codec) (lower (path_suffix dest)) of
        None \<Rightarrow>
          (Inl (ValueError (''unknown file extension: '' @ lower (path_suffix dest))), fs)
      | Some fmt \<Rightarrow>
          (case encode codec fmt img target config metadata save_params of
             Refused e \<Rightarrow> (Inl e, fs)
           | Saved b \<Rightarrow> (Inr (), fs(dest \<mapsto> b))
           | SaveFailed e written \<Rightarrow>
               (Inl e, if fs dest = None then fs else fs(dest \<mapsto> written))))"

section \<open>Metadata extractor (\<open>core/image_info.py\<close>)\<close>

definition get_format_from_extension :: "(string \<times> string) list \<Rightarrow> string \<Rightarrow> string option" where
  "get_format_from_extension reg extension = map_of reg (lower extension)"

definition detect_transparency :: "Image \<Rightarrow> bool" where
  "detect_transparency img =
     (if img_mode img \<in> {''RGBA'', ''LA'', ''PA''} then True
      else if img_info_transparency img then True
      else (img_mode img = ''P'' \<and> img_info_transparency img))"

definition extract_basic_info ::
  "(string \<times> string) list \<Rightarrow> filesystem \<Rightarrow> Image \<Rightarrow> path \<Rightarrow> exn + BasicImageInfo" where
  "extract_basic_info reg fs img fpath =
     (case stat_size fs fpath of
        Inl e \<Rightarrow> Inl e
      | Inr fsize \<Rightarrow>
          let (w, h) = img_size img;
              detected_format = (if truthy_str (img_format img) then the (img_format img) else ''UNKNOWN'');
              detected_format =
                (if detected_format = ''UNKNOWN'' then
                   (let format_from_ext = get_format_from_extension reg (path_suffix fpath)
                    in if truthy_str format_from_ext then the format_from_ext else detected_format)
                 else detected_format)
          in Inr \<lparr>file_path = fpath, file_size = fsize, format = detected_format,
                   mode = img_mode img, width = w, height = h,
                   has_transparency = detect_transparency img,
                   frame_count = (case img_n_frames img of Some n \<Rightarrow> n | None \<Rightarrow> 1)\<rparr>)"

definition extract_metadata :: "Codec \<Rightarrow> filesystem \<Rightarrow> path \<Rightarrow> exn + ImageMetadata" where
  "extract_metadata codec fs fpath =
     (case image_open codec fs fpath of
        Inl e \<Rightarrow> Inl e
      | Inr img0 \<Rightarrow>
          (case exif_transpose codec img0 of
             Inl e \<Rightarrow> Inl e
           | Inr img \<Rightarrow>
               (case extract_basic_info (registered_extensions codec) fs img fpath of
                  Inl e \<Rightarrow> Inl e
                | Inr basic \<Rightarrow>
                    Inr \<lparr>basic_info = basic,
                         histogram = extract_histogram codec img,
                         complexity = calculate_complexity codec img\<rparr>)))"

section \<open>Results and the error handler (\<open>models/compression_result.py\<close>, \<open>exceptions.py\<close>)\<close>

record CompressionResult =
  success :: bool
  error :: "string option"
  res_input_path :: path
  res_output_path :: path
  original_size :: int
  compressed_size :: int
  format_used :: string
  quality_used :: "int option"
  was_resized :: bool
  original_dimensions :: "(int \<times> int) option"
  final_dimensions :: "(int \<times> int) option"


text \<open>
  \<open>_create_error_result\<close>: without an explicit size the size of the input is read when
  the input exists (and is 0 otherwise); without an explicit output path the result
  carries the input path with its suffix replaced by \<open>.compressed\<close>.
\<close>

definition create_error_result ::
  "filesystem \<Rightarrow> path \<Rightarrow> string \<Rightarrow> path option \<Rightarrow> int option \<Rightarrow> exn + CompressionResult" where
  "create_error_result fs inp error_msg outp osize =
     (let osize' =
            (case osize of
               Some n \<Rightarrow> n
             | None \<Rightarrow>
                 if path_exists fs inp
                 then (case stat_size fs inp of Inr n \<Rightarrow> n | Inl e \<Rightarrow> 0)
                 else 0)
      in case (case outp of Some p \<Rightarrow> Inr p | None \<Rightarrow> with_suffix inp ''.compressed'') of
           Inl e \<Rightarrow> Inl e
         | Inr out \<Rightarrow>
             Inr \<lparr>success = False, error = Some error_msg, res_input_path = inp,
                  res_output_path = out, original_size = osize', compressed_size = 0,
                  format_used = ''UNKNOWN'', quality_used = None, was_resized = False,
                  original_dimensions = None, final_dimensions = None\<rparr>)"

definition handle_validation_error ::
  "filesystem \<Rightarrow> string \<Rightarrow> path \<Rightarrow> path option \<Rightarrow> exn + CompressionResult" where
  "handle_validation_error fs message inp outp =
     create_error_result fs inp (msg_validation_failed @ message) outp None"

definition handle_with_context ::
  "filesystem \<Rightarrow> exn \<Rightarrow> path \<Rightarrow> string \<Rightarrow> path option \<Rightarrow> exn + CompressionResult" where
  "handle_with_context fs err inp operation outp =
     create_error_result fs inp (operation @ '': '' @ exn_str err) outp None"

fun handle_compression_error ::
  "filesystem \<Rightarrow> exn \<Rightarrow> path \<Rightarrow> string \<Rightarrow> exn + CompressionResult" where
  "handle_compression_error fs (ValidationError m) inp operation =
     handle_validation_error fs m inp None"
| "handle_compression_error fs (UnsupportedFormatError m) inp operation =
     handle_with_context fs (UnsupportedFormatError m) inp operation None"
| "handle_compression_error fs (FileNotFoundError m) inp operation =
     handle_with_context fs (FileNotFoundError m) inp operation None"
| "handle_compression_error fs (PermissionError m) inp operation =
     handle_with_context fs (PermissionError m) inp (operation @ op_permission_suffix) None"
| "handle_compression_error fs (SameFileError m) inp operation =
     handle_with_context fs (SameFileError m) inp (operation @ op_system_suffix) None"
| "handle_compression_error fs (OSError m) inp operation =
     handle_with_context fs (OSError m) inp (operation @ op_system_suffix) None"
| "handle_compression_error fs err inp operation =
     handle_with_context fs err inp operation None"

section \<open>Compression executor (\<open>core/compression_engine.py\<close>)\<close>

text \<open>
  Every function that touches files takes the file system and returns the new one next
  to its value or exception: an exception does not undo the writes made before it.
\<close>

definition create_skip_result ::
  "(string \<times> string) list \<Rightarrow> filesystem \<Rightarrow> CompressionConfig \<Rightarrow> string
     \<Rightarrow> (exn + CompressionResult) \<times> filesystem" where
  "create_skip_result reg fs config rsn =
     (let out = get_output_path reg config (input_path config) None False in
      case copy2 fs (input_path config) out of
        Inl e \<Rightarrow> (Inl e, fs)
      | Inr fs' \<Rightarrow>
          (case stat_size fs' (input_path config) of
             Inl e \<Rightarrow> (Inl e, fs')
           | Inr fsize \<Rightarrow>
               (Inr \<lparr>success = True, error = Some (msg_skip_prefix @ rsn),
                     res_input_path = input_path config, res_output_path = out,
                     original_size = fsize, compressed_size = fsize,
                     format_used = ''SKIPPED'', quality_used = None, was_resized = False,
                     original_dimensions = None, final_dimensions = None\<rparr>, fs')))"

definition apply_strategy_decision :: "CompressionConfig \<Rightarrow> CompressionDecision \<Rightarrow> CompressionConfig" where
  "apply_strategy_decision config decision =
     (let new_config = config;
          new_config =
            (if truthy_str (recommended_format decision)
             then new_config\<lparr>target_format := recommended_format decision\<rparr>
             else new_config)
      in case recommended_quality decision of
           Some q \<Rightarrow> new_config\<lparr>custom_quality := Some q, quality_mode := CUSTOM\<rparr>
         | None \<Rightarrow> new_config)"

text \<open>
  The three quantities \<open>_post_process_result\<close> computes before it acts: the compression
  ratio, the negligible-gain test that selects the rename, and the fallback threshold.
\<close>

definition compression_ratio :: "int \<Rightarrow> int \<Rightarrow> real" where
  "compression_ratio osize csize =
     (if osize > 0 then real_of_int (osize - csize) / real_of_int osize else 0)"

definition should_use_original_name :: "CompressionConfig \<Rightarrow> int \<Rightarrow> int \<Rightarrow> bool" where
  "should_use_original_name config osize csize =
     (quality_mode config = LOSSLESS \<and> compression_ratio osize csize < 0.05
      \<and> output_path config = None)"

definition fallback_threshold :: "CompressionConfig \<Rightarrow> real" where
  "fallback_threshold config = (if custom_quality config = None then 1.005 else 1.02)"

text \<open>
  The rename step: an \<open>OSError\<close> of the rename is logged and the first name is kept.
\<close>

definition rename_step ::
  "(string \<times> string) list \<Rightarrow> filesystem \<Rightarrow> CompressionConfig \<Rightarrow> path \<Rightarrow> int \<Rightarrow> int \<Rightarrow> string
     \<Rightarrow> path \<times> filesystem" where
  "rename_step reg fs config out osize csize target =
     (if should_use_original_name config osize csize then
        (let new_output_path = get_output_path reg config (input_path config) (Some target) True in
         if new_output_path \<noteq> out \<and> new_output_path \<noteq> input_path config then
           (case rename fs out new_output_path of
              Inr fs' \<Rightarrow> (new_output_path, fs')
            | Inl e \<Rightarrow> (out, fs))
         else (out, fs))
      else (out, fs))"

text \<open>
  The fallback step. The warning that announces the fallback formats
  \<open>compressed_size / original_size\<close>, which raises \<open>ZeroDivisionError\<close> for an
  original size of 0 before anything is deleted. An \<open>OSError\<close> of the deletion or of
  the copy is logged and the compressed size is kept; a deletion that succeeded is not
  undone.
\<close>

definition fallback_step ::
  "filesystem \<Rightarrow> CompressionConfig \<Rightarrow> path \<Rightarrow> int \<Rightarrow> int \<Rightarrow> (exn + int) \<times> filesystem" where
  "fallback_step fs config out osize csize =
     (if real_of_int csize > real_of_int osize * fallback_threshold config then
        (if osize = 0 then (Inl (ZeroDivisionError ''division by zero''), fs)
         else
           (case unlink fs out of
              Inl e \<Rightarrow> (Inr csize, fs)
            | Inr fs1 \<Rightarrow>
                (case copy2 fs1 (input_path config) out of
                   Inl e \<Rightarrow> (Inr csize, fs1)
                 | Inr fs2 \<Rightarrow> (Inr osize, fs2))))
      else (Inr csize, fs))"

definition post_process_result ::
  "(string \<times> string) list \<Rightarrow> filesystem \<Rightarrow> CompressionConfig \<Rightarrow> path \<Rightarrow> int \<Rightarrow> int \<Rightarrow> string
     \<Rightarrow> (exn + path \<times> int) \<times> filesystem" where
  "post_process_result reg fs config out osize csize target =
     (let (out', fs1) = rename_step reg fs config out osize csize target in
      case fallback_step fs1 config out' osize csize of
        (Inl e, fs2) \<Rightarrow> (Inl e, fs2)
      | (Inr csize', fs2) \<Rightarrow> (Inr (out', csize'), fs2))"

text \<open>\<open>_process_image\<close>: EXIF transposition, resizing when configured, colour-mode preparation.\<close>

definition process_image_pixels ::
  "Codec \<Rightarrow> Image \<Rightarrow> CompressionConfig \<Rightarrow> string \<Rightarrow> exn + Image \<times> bool \<times> (int \<times> int)" where
  "process_image_pixels codec img0 config target =
     (case exif_transpose codec img0 of
        Inl e \<Rightarrow> Inl e
      | Inr img \<Rightarrow>
          let dims = img_size img in
          (case (if should_resize config then resize_image codec img (resize_config config)
                 else Inr img) of
             Inl e \<Rightarrow> Inl e
           | Inr img1 \<Rightarrow>
               let resized = (should_resize config \<and> img_size img1 \<noteq> dims) in
               (case prepare_for_format codec img1 target of
                  Inl e \<Rightarrow> Inl e
                | Inr img2 \<Rightarrow> Inr (img2, resized, dims))))"

text \<open>
  The target format of \<open>_compress_image\<close>: the format the image is prepared for, whose
  save parameters are built, and which the result reports as \<open>format_used\<close>. The
  format of the file written is the one \<open>Image.save\<close> takes from the destination.
\<close>

definition choose_target_format :: "CompressionConfig \<Rightarrow> ImageMetadata \<Rightarrow> string" where
  "choose_target_format config metadata =
     (let target = (if truthy_str (target_format config) then the (target_format config)
                    else format (basic_info metadata))
      in if target = ''UNKNOWN'' then ''JPEG'' else target)"

definition compress_image ::
  "Codec \<Rightarrow> filesystem \<Rightarrow> CompressionConfig \<Rightarrow> ImageMetadata
     \<Rightarrow> (exn + CompressionResult) \<times> filesystem" where
  "compress_image codec fs config metadata =
     (let reg = registered_extensions codec;
          osize = file_size (basic_info metadata);
          out = get_output_path reg config (input_path config) None False;
          target = choose_target_format config metadata
      in case image_open codec fs (input_path config) of
           Inl e \<Rightarrow> (Inl e, fs)
         | Inr img \<Rightarrow>
             (case process_image_pixels codec img config target of
                Inl e \<Rightarrow> (Inl e, fs)
              | Inr (processed_img, resized, dims) \<Rightarrow>
                  let (base_params, actual_quality) = get_save_parameters target config in
                  if truthy (base_params ''skip_processing'') then
                    create_skip_result reg fs config msg_jpeg_lossless_skip
                  else
                    (case image_save codec fs processed_img out target config metadata base_params of
                       (Inl e, fs1) \<Rightarrow> (Inl e, fs1)
                     | (Inr saved, fs1) \<Rightarrow>
                         (case stat_size fs1 out of
                            Inl e \<Rightarrow> (Inl e, fs1)
                          | Inr csize \<Rightarrow>
                              (case post_process_result reg fs1 config out osize csize target of
                                 (Inl e, fs2) \<Rightarrow> (Inl e, fs2)
                               | (Inr (out', csize'), fs2) \<Rightarrow>
                                   (Inr \<lparr>success = True, error = None,
                                         res_input_path = input_path config,
                                         res_output_path = out',
                                         original_size = osize, compressed_size = csize',
                                         format_used = target, quality_used = actual_quality,
                                         was_resized = resized,
                                         original_dimensions = Some dims,
                                         final_dimensions = Some (img_size processed_img)\<rparr>,
                                    fs2))))))"

text \<open>
  The strategy stage of \<open>process_image\<close>: when the user configured neither a target
  format nor a quality, the selector decides; its decision is either to skip, with a
  reason, or is applied to the configuration the compression then runs with. In every
  other call the compression runs with the user's configuration.
\<close>

datatype plan = Skip string | Compress CompressionConfig

definition strategy_stage ::
  "Codec \<Rightarrow> AppConfig \<Rightarrow> CompressionConfig \<Rightarrow> ImageMetadata \<Rightarrow> exn + plan" where
  "strategy_stage codec app config metadata =
     (if \<not> truthy_str (target_format config) \<and> quality_mode config = LOSSLESS then
        (case select_optimal (registered_extensions codec) app
                (CompressionStrategy_init app None None None) metadata (Some config) of
           Inl e \<Rightarrow> Inl e
         | Inr decision \<Rightarrow>
             if skip_compression decision then Inr (Skip (reason decision))
             else Inr (Compress (apply_strategy_decision config decision)))
      else Inr (Compress config))"

text \<open>
  The body of the \<open>try\<close> block of \<open>process_image\<close>, and the function itself, whose
  handler turns any exception of the body into an error result. The handler builds that
  result with \<open>with_suffix\<close>, so it raises in turn when the input path has no name.
\<close>

definition process_image_body ::
  "Codec \<Rightarrow> AppConfig \<Rightarrow> filesystem \<Rightarrow> CompressionConfig \<Rightarrow> (exn + CompressionResult) \<times> filesystem" where
  "process_image_body codec app fs config =
     (if \<not> path_exists fs (input_path config) then
        (handle_with_context fs
           (FileNotFoundError (msg_input_missing @ path_str (input_path config)))
           (input_path config) op_file_validation None, fs)
      else
        (case extract_metadata codec fs (input_path config) of
           Inl e \<Rightarrow> (Inl e, fs)
         | Inr metadata \<Rightarrow>
             (case strategy_stage codec app config metadata of
                Inl e \<Rightarrow> (Inl e, fs)
              | Inr (Skip rsn) \<Rightarrow>
                  create_skip_result (registered_extensions codec) fs config rsn
              | Inr (Compress config') \<Rightarrow> compress_image codec fs config' metadata)))"

definition process_image ::
  "Codec \<Rightarrow> AppConfig \<Rightarrow> filesystem \<Rightarrow> CompressionConfig \<Rightarrow> (exn + CompressionResult) \<times> filesystem" where
  "process_image codec app fs config =
     (case process_image_body codec app fs config of
        (Inr r, fs') \<Rightarrow> (Inr r, fs')
      | (Inl e, fs') \<Rightarrow> (handle_compression_error fs' e (input_path config) op_engine, fs'))"

section \<open>Example environment\<close>

text \<open>
  The field defaults of \<open>CompressionConfig\<close> for a given input path, the application
  defaults of \<open>config.py\<close> (above), and a small codec for evaluating the engine on concrete
  calls: it registers five extensions, decodes every file to an 800 by 600 RGB image
  without a format attribute (as an image returned by a transposition has none), offers
  no histogram or complexity analysis, and the writer of every registered format produces
  the given outcome.
\<close>

definition CompressionConfig_default :: "path \<Rightarrow> CompressionConfig" where
  "CompressionConfig_default inp =
     \<lparr>input_path = inp, output_path = None, output_dir = None, quality_mode = LOSSLESS,
      custom_quality = None, target_format = None, preserve_format = True,
      resize_config = None, optimize = True, progressive = True, strip_metadata = False,
      keep_orientation = True, fallback_to_original = False\<rparr>"

definition example_registry :: "(string \<times> string) list" where
  "example_registry =
     [(''.jpg'', ''JPEG''), (''.jpeg'', ''JPEG''), (''.png'', ''PNG''), (''.webp'', ''WEBP''),
      (''.bmp'', ''BMP'')]"

definition example_image :: Image where
  "example_image =
     \<lparr>img_format = None, img_mode = ''RGB'', img_size = (800, 600),
      img_info_transparency = False, img_n_frames = None, img_pixels = []\<rparr>"

definition example_codec :: "save_outcome \<Rightarrow> Codec" where
  "example_codec outcome =
     \<lparr>registered_extensions = example_registry,
      decode = (\<lambda>b. Inr example_image),
      exif_transpose = (\<lambda>img. Inr img),
      extract_histogram = (\<lambda>img. None),
      calculate_complexity = (\<lambda>img. None),
      resize_image = (\<lambda>img rc. Inr img),
      prepare_for_format = (\<lambda>img target. Inr img),
      encode = (\<lambda>fmt img target config metadata ps. outcome)\<rparr>"

text \<open>The strategy object \<open>process_image\<close> constructs: no argument, so every field is the default.\<close>

definition default_strategy :: CompressionStrategy where
  "default_strategy = CompressionStrategy_init default_app_config None None None"

text \<open>
  Metadata of a smooth gradient: no edges, no texture, a quarter of the pixels distinct
  colours. All three inputs of the complexity mean are dyadic and the mean (about 0.083)
  is far from every cut point.
\<close>

definition smooth_metrics :: ComplexityMetrics where
  "smooth_metrics =
     \<lparr>edge_density = 0, color_diversity = 0.25, texture_complexity = 0,
      compression_difficulty = 0.075\<rparr>"

definition smooth_metadata :: ImageMetadata where
  "smooth_metadata =
     \<lparr>basic_info =
        \<lparr>file_path = [''art'', ''gradient.png''], file_size = 200000, format = ''PNG'',
         mode = ''RGB'', width = 800, height = 600, has_transparency = False, frame_count = 1\<rparr>,
      histogram = None, complexity = Some smooth_metrics\<rparr>"

text \<open>
  A 1.2 KB icon, a quality decision as the selector returns it for a large WEBP file,
  a camera JPEG whose extension is upper case, and a call on a file that does not exist
  with a configured output path.
\<close>

definition tiny_icon_fs :: filesystem where
  "tiny_icon_fs = [[''icons'', ''dot.png''] \<mapsto> replicate 1200 0]"

definition tiny_icon_config :: CompressionConfig where
  "tiny_icon_config = CompressionConfig_default [''icons'', ''dot.png'']"

definition webp_quality_decision :: CompressionDecision where
  "webp_quality_decision =
     \<lparr>strategy_type = S_LOSSY, recommended_quality = Some 85, recommended_format = Some ''WEBP'',
      reason = reason_webp_quality, skip_compression = False\<rparr>"

definition camera_fs :: filesystem where
  "camera_fs = [[''camera'', ''IMG_0001.JPG''] \<mapsto> replicate 80000 0]"

definition camera_config :: CompressionConfig where
  "camera_config = (CompressionConfig_default [''camera'', ''IMG_0001.JPG''])\<lparr>target_format := Some ''JPEG''\<rparr>"

definition camera_metadata :: ImageMetadata where
  "camera_metadata =
     \<lparr>basic_info =
        \<lparr>file_path = [''camera'', ''IMG_0001.JPG''], file_size = 80000, format = ''JPEG'',
         mode = ''RGB'', width = 800, height = 600, has_transparency = False, frame_count = 1\<rparr>,
      histogram = None, complexity = None\<rparr>"

definition missing_config :: CompressionConfig where
  "missing_config =
     (CompressionConfig_default [''photos'', ''missing.png''])\<lparr>output_path := Some [''out'', ''result.png'']\<rparr>"

text \<open>
  A 10 KB file whose extension is not registered, called in auto mode, with an explicit
  quality, and with an explicit quality and the output path \<open>out/page.jpg\<close>; a call
  with explicit quality, format and output path whose writer fails after three bytes; and
  the metadata of a 1.2 KB file of unknown format.
\<close>

definition scan_fs :: filesystem where
  "scan_fs = [[''scans'', ''page.dat''] \<mapsto> replicate 10000 0]"

definition scan_config :: CompressionConfig where
  "scan_config = CompressionConfig_default [''scans'', ''page.dat'']"

definition scan_custom_config :: CompressionConfig where
  "scan_custom_config = scan_config\<lparr>quality_mode := CUSTOM, custom_quality := Some 80\<rparr>"

definition scan_jpg_config :: CompressionConfig where
  "scan_jpg_config = scan_custom_config\<lparr>output_path := Some [''out'', ''page.jpg'']\<rparr>"

definition poster_fs :: filesystem where
  "poster_fs = [[''photos'', ''poster.png''] \<mapsto> replicate 300000 0]"

definition poster_config :: "path \<Rightarrow> CompressionConfig" where
  "poster_config dest =
     (CompressionConfig_default [''photos'', ''poster.png''])
       \<lparr>output_path := Some dest, quality_mode := CUSTOM, custom_quality := Some 80,
        target_format := Some ''JPEG''\<rparr>"

definition disk_full :: save_outcome where
  "disk_full = SaveFailed (OSError ''No space left on device'') [0xFF, 0xD8, 0xFF]"

definition tiny_unknown_metadata :: ImageMetadata where
  "tiny_unknown_metadata =
     \<lparr>basic_info =
        \<lparr>file_path = [''icons'', ''dot''], file_size = 1200, format = ''UNKNOWN'',
         mode = ''RGB'', width = 40, height = 40, has_transparency = False, frame_count = 1\<rparr>,
      histogram = None, complexity = None\<rparr>"

text \<open>
  The metadata the extractor returns for the poster, and a 300000-byte WEBP file called
  with the default configuration (auto mode), with the metadata the extractor returns
  for it.
\<close>

definition poster_metadata :: ImageMetadata where
  "poster_metadata =
     \<lparr>basic_info =
        \<lparr>file_path = [''photos'', ''poster.png''], file_size = 300000, format = ''PNG'',
         mode = ''RGB'', width = 800, height = 600, has_transparency = False, frame_count = 1\<rparr>,
      histogram = None, complexity = None\<rparr>"

definition webp_fs :: filesystem where
  "webp_fs = [[''photos'', ''a.webp''] \<mapsto> replicate 300000 0]"

definition webp_config :: CompressionConfig where
  "webp_config = CompressionConfig_default [''photos'', ''a.webp'']"

definition webp_metadata :: ImageMetadata where
  "webp_metadata =
     \<lparr>basic_info =
        \<lparr>file_path = [''photos'', ''a.webp''], file_size = 300000, format = ''WEBP'',
         mode = ''RGB'', width = 800, height = 600, has_transparency = False, frame_count = 1\<rparr>,
      histogram = None, complexity = None\<rparr>"

section \<open>Unfolding rules\<close>

lemmas path_defs =
  path_name_def path_parent_def path_join_def name_suffix_def name_stem_def path_suffix_def
  path_stem_def with_suffix_def

lemmas str_defs =
  lower_def upper_def lower_chr_def upper_chr_def upper_letters_def lower_letters_def str_int_def

lemmas config_defs =
  effective_quality_def should_resize_def get_quality_suffix_def preferred_extensions_def
  get_format_extension_def determine_extension_def generate_auto_path_def get_output_path_def
  CompressionConfig_default_def

lemmas format_defs =
  jpeg_extensions_def modern_extensions_def jpeg_params_of_def get_jpeg_params_def
  get_png_params_def get_webp_params_def get_avif_params_def get_heif_params_def
  get_save_parameters_def

lemmas strategy_defs =
  brightness_stats_def overall_complexity_def ImageCharacteristics_new_def
  analyze_image_from_metadata_def supported_formats_def CompressionDecision_new_def
  default_app_config_def CompressionStrategy_init_def default_strategy_def
  should_skip_compression_def try_original_format_optimization_def estimate_color_count_def
  handle_simple_graphic_def make_decision_def analyze_and_decide_def suggest_format_def
  apply_user_config_def select_optimal_def

lemmas fs_defs =
  path_exists_def stat_size_def samefile_def copy2_def unlink_def rename_def image_open_def image_save_def

lemmas extract_defs =
  get_format_from_extension_def detect_transparency_def extract_basic_info_def
  extract_metadata_def

lemmas handler_defs =
  create_error_result_def handle_validation_error_def handle_with_context_def

lemmas engine_defs =
  create_skip_result_def apply_strategy_decision_def compression_ratio_def
  should_use_original_name_def fallback_threshold_def rename_step_def fallback_step_def
  post_process_result_def process_image_pixels_def choose_target_format_def
  compress_image_def strategy_stage_def process_image_body_def process_image_def

lemmas example_defs = example_registry_def example_image_def example_codec_def

lemmas example_data_defs =
  tiny_icon_fs_def tiny_icon_config_def webp_quality_decision_def camera_fs_def
  camera_config_def camera_metadata_def missing_config_def scan_fs_def scan_config_def
  scan_custom_config_def scan_jpg_config_def poster_fs_def poster_config_def disk_full_def tiny_unknown_metadata_def
  poster_metadata_def webp_fs_def webp_config_def webp_metadata_def

lemmas all_defs =
  path_defs str_defs config_defs format_defs strategy_defs fs_defs extract_defs handler_defs
  engine_defs example_defs

section \<open>Destinations\<close>







text \<open>
  The file operations of the model raise nothing but \<open>OSError\<close>s, so the handlers
  \<open>except OSError\<close> of post-processing catch every exception they can raise.
\<close>

lemma file_operation_errors:
  "copy2 fs src dst = Inl e \<Longrightarrow> is_OSError e"
  "unlink fs p = Inl e \<Longrightarrow> is_OSError e"
  "rename fs src dst = Inl e \<Longrightarrow> is_OSError e"
  by (auto simp add: copy2_def samefile_def unlink_def rename_def split: if_splits option.splits)

section \<open>The JPEG quality clamp\<close>

lemma jpeg_effective_quality:
  "snd (get_jpeg_params (Some q) config) =
     Some (if max 1 (min 100 q) = 100 then 98 else max 1 (min 100 q))"
  by (simp add: get_jpeg_params_def Let_def)

lemma jpeg_quality_parameter:
  "fst (get_jpeg_params (Some q) config) ''quality'' =
     Some (PInt (if max 1 (min 100 q) = 100 then 98 else max 1 (min 100 q)))"
  by (simp add: get_jpeg_params_def jpeg_params_of_def Let_def)

text \<open>
  C4. Building JPEG parameters with an explicit quality \<open>q\<close> clamps \<open>q\<close> to the range
  1 to 100 and then replaces 100 by 98: the quality returned and the \<open>quality\<close> entry of
  the parameter dictionary are that value, it is never 100, and quality 100 gives 98,
  also through \<open>get_save_parameters\<close> for a configuration in custom mode with quality 100.
\<close>

theorem C4_jpeg_quality_100_clamp:
  "snd (get_jpeg_params (Some q) config) =
     Some (if max 1 (min 100 q) = 100 then 98 else max 1 (min 100 q))
   \<and> fst (get_jpeg_params (Some q) config) ''quality'' =
     Some (PInt (if max 1 (min 100 q) = 100 then 98 else max 1 (min 100 q)))
   \<and> snd (get_jpeg_params (Some q) config) \<noteq> Some 100
   \<and> snd (get_jpeg_params (Some 100) config) = Some 98
   \<and> snd (get_save_parameters ''JPEG''
            (config\<lparr>quality_mode := CUSTOM, custom_quality := Some 100\<rparr>)) = Some 98"
proof -
  have "snd (get_jpeg_params (Some q) config) \<noteq> Some 100"
    by (cases "max 1 (min 100 q) = 100") (simp_all add: jpeg_effective_quality)
  moreover have "snd (get_save_parameters ''JPEG''
      (config\<lparr>quality_mode := CUSTOM, custom_quality := Some 100\<rparr>)) = Some 98"
    by (simp add: get_save_parameters_def effective_quality_def jpeg_effective_quality)
  ultimately show ?thesis
    by (simp add: jpeg_effective_quality jpeg_quality_parameter)
qed

theorem C4_jpeg_quality_100_clamp_witness:
  "snd (get_jpeg_params (Some 100) (CompressionConfig_default [''photos'', ''a.png''])) = Some 98
   \<and> snd (get_jpeg_params (Some 250) (CompressionConfig_default [''photos'', ''a.png''])) = Some 98
   \<and> snd (get_jpeg_params (Some (- 3)) (CompressionConfig_default [''photos'', ''a.png''])) = Some 1
   \<and> snd (get_jpeg_params (Some 60) (CompressionConfig_default [''photos'', ''a.png''])) = Some 60"
  using C4_jpeg_quality_100_clamp [of 100 "CompressionConfig_default [''photos'', ''a.png'']"]
        C4_jpeg_quality_100_clamp [of 250 "CompressionConfig_default [''photos'', ''a.png'']"]
        C4_jpeg_quality_100_clamp [of "- 3" "CompressionConfig_default [''photos'', ''a.png'']"]
        C4_jpeg_quality_100_clamp [of 60 "CompressionConfig_default [''photos'', ''a.png'']"]
  by simp

section \<open>The metadata-based classifier\<close>

text \<open>
  \<open>overall_complexity\<close> never returns \<open>simple\<close>, so the classifier's comparison with
  that name is always false and a metadata record is a simple graphic exactly when its
  colour diversity is below 0.1.
\<close>

lemma classifier_simple_iff_color_diversity:
  assumes "complexity metadata = Some c" and "analyze_image_from_metadata metadata = Inr ch"
  shows "is_simple_graphic ch \<longleftrightarrow> color_diversity c < 0.1"
proof -
  have ne: "overall_complexity c \<noteq> ''simple''"
    by (simp add: overall_complexity_def Let_def)
  show ?thesis
    using assms ne
    by (auto simp add: analyze_image_from_metadata_def ImageCharacteristics_new_def Let_def
        split: if_splits option.splits)
qed

text \<open>
  C5 (the code at the failing input). The smooth-gradient metadata has a complexity
  record whose overall complexity is \<open>very_low\<close>, and the metadata-based classifier
  returns \<open>is_simple_graphic = False\<close> for it: the claim's classification by the
  \<open>very_low\<close> category does not happen in the code.
\<close>

theorem C5_very_low_complexity_not_simple:
  "overall_complexity smooth_metrics = ''very_low''
   \<and> complexity smooth_metadata = Some smooth_metrics
   \<and> map_sum id is_simple_graphic (analyze_image_from_metadata smooth_metadata) = Inr False"
  by (simp add: smooth_metrics_def smooth_metadata_def overall_complexity_def
      analyze_image_from_metadata_def ImageCharacteristics_new_def Let_def)

section \<open>Results of the executor and of the error handler\<close>

lemma create_skip_result_fields:
  assumes "create_skip_result reg fs config rsn = (Inr r, fs')"
  shows "success r" and "format_used r = ''SKIPPED''" and "compressed_size r = original_size r"
    and "error r = Some (msg_skip_prefix @ rsn)"
  using assms
  by (auto simp add: create_skip_result_def Let_def split: sum.splits)


lemma compress_image_success:
  assumes "compress_image codec fs config metadata = (Inr r, fs')"
  shows "success r"
  using assms
  by (auto simp add: compress_image_def Let_def
      split: sum.splits prod.splits if_splits
      dest: create_skip_result_fields(1))

lemma create_error_result_fields:
  assumes "create_error_result fs inp msg None osz = Inr r"
  shows "\<not> success r" and "error r = Some msg" and "res_input_path r = inp"
    and "res_output_path r = path_join (path_parent inp) (path_stem inp @ ''.compressed'')"
    and "compressed_size r = 0" and "format_used r = ''UNKNOWN''"
  using assms
  by (auto simp add: create_error_result_def with_suffix_def Let_def split: sum.splits if_splits)

lemma create_error_result_total:
  assumes "path_name inp \<noteq> []"
  shows "\<exists>r. create_error_result fs inp msg None osz = Inr r"
  using assms
  by (simp add: create_error_result_def with_suffix_def Let_def)

lemma handle_with_context_fields:
  assumes "handle_with_context fs e inp operation None = Inr r"
  shows "\<not> success r" and "error r \<noteq> None" and "res_input_path r = inp"
    and "res_output_path r = path_join (path_parent inp) (path_stem inp @ ''.compressed'')"
    and "compressed_size r = 0" and "format_used r = ''UNKNOWN''"
  using assms create_error_result_fields [of fs inp "operation @ '': '' @ exn_str e" None r]
  by (simp_all add: handle_with_context_def)

lemma handle_compression_error_fields:
  assumes "handle_compression_error fs e inp operation = Inr r"
  shows "\<not> success r" and "error r \<noteq> None" and "res_input_path r = inp"
    and "res_output_path r = path_join (path_parent inp) (path_stem inp @ ''.compressed'')"
    and "compressed_size r = 0" and "format_used r = ''UNKNOWN''"
  using assms
  by (cases e;
      auto simp add: handle_validation_error_def handle_with_context_def
        dest: create_error_result_fields)+

lemma handle_compression_error_total:
  assumes "path_name inp \<noteq> []"
  shows "\<exists>r. handle_compression_error fs e inp operation = Inr r"
  using assms
  by (cases e) (simp_all add: handle_validation_error_def handle_with_context_def create_error_result_total)

lemma process_image_body_result:
  assumes "process_image_body codec app fs config = (Inr r, fs')"
  shows "success r \<or>
         (\<not> success r \<and> error r \<noteq> None \<and> res_input_path r = input_path config
          \<and> res_output_path r =
                path_join (path_parent (input_path config)) (path_stem (input_path config) @ ''.compressed'')
          \<and> compressed_size r = 0 \<and> format_used r = ''UNKNOWN'')"
  using assms
  by (auto simp add: process_image_body_def
      split: if_splits sum.splits plan.splits
      dest: handle_with_context_fields compress_image_success create_skip_result_fields(1))

lemma process_image_total:
  assumes "path_name (input_path config) \<noteq> []"
  shows "\<exists>r fs'. process_image codec app fs config = (Inr r, fs')"
proof (cases "process_image_body codec app fs config")
  case (Pair x fs1)
  show ?thesis
  proof (cases x)
    case (Inl e)
    from handle_compression_error_total [OF assms, of fs1 e op_engine]
    obtain r where "handle_compression_error fs1 e (input_path config) op_engine = Inr r" by blast
    with Pair Inl show ?thesis by (simp add: process_image_def)
  next
    case (Inr r)
    with Pair show ?thesis by (simp add: process_image_def)
  qed
qed

lemma process_image_failed_fields:
  assumes "process_image codec app fs config = (Inr r, fs')" and "\<not> success r"
  shows "error r \<noteq> None \<and> res_input_path r = input_path config
         \<and> res_output_path r =
               path_join (path_parent (input_path config)) (path_stem (input_path config) @ ''.compressed'')
         \<and> compressed_size r = 0 \<and> format_used r = ''UNKNOWN''"
proof (cases "process_image_body codec app fs config")
  case (Pair x fs1)
  show ?thesis
  proof (cases x)
    case (Inl e)
    with Pair assms(1) have "handle_compression_error fs1 e (input_path config) op_engine = Inr r"
      by (auto simp add: process_image_def)
    from handle_compression_error_fields [OF this] show ?thesis by simp
  next
    case (Inr r')
    with Pair assms(1) have "process_image_body codec app fs config = (Inr r, fs')"
      by (simp add: process_image_def)
    from process_image_body_result [OF this] assms(2) show ?thesis by simp
  qed
qed

section \<open>The strategy stage, the extractor and the save step\<close>


lemma strategy_stage_custom:
  assumes "\<not> truthy_str (target_format config) \<longrightarrow> quality_mode config \<noteq> LOSSLESS"
  shows "strategy_stage codec app config metadata = Inr (Compress config)"
  using assms by (auto simp add: strategy_stage_def)

lemma no_skip_marker_with_quality:
  assumes "effective_quality config = Some q"
  shows "\<not> truthy (fst (get_save_parameters target config) ''skip_processing'')"
  using assms
  by (simp add: get_save_parameters_def get_jpeg_params_def jpeg_params_of_def get_png_params_def
      get_webp_params_def get_avif_params_def get_heif_params_def Let_def)

lemma extract_metadata_file:
  assumes "extract_metadata codec fs fpath = Inr metadata"
  shows "\<exists>b. fs fpath = Some b \<and> file_size (basic_info metadata) = int (length b)"
  using assms
  by (auto simp add: extract_metadata_def image_open_def extract_basic_info_def stat_size_def Let_def
      split: sum.splits option.splits prod.splits)



lemma image_save_saved_eval:
  assumes "map_of (registered_extensions codec) (lower (path_suffix dest)) = Some fmt"
      and "encode codec fmt img target config metadata ps = Saved enc"
  shows "image_save codec fs img dest target config metadata ps = (Inr (), fs(dest \<mapsto> enc))"
  using assms by (simp add: image_save_def)








section \<open>Skip results\<close>



section \<open>Failed results\<close>

text \<open>
  C7 (as stated, refuted). A call on a missing input with the configured output path
  \<open>out/result.png\<close> returns a failed result whose output path is
  \<open>photos/missing.compressed\<close>, not the destination the call would have written to.
\<close>

theorem C7_counterexample:
  "map_sum id success (fst (process_image (example_codec (Saved [])) default_app_config Map.empty missing_config)) = Inr False
   \<and> map_sum id res_output_path (fst (process_image (example_codec (Saved [])) default_app_config Map.empty missing_config))
        = Inr [''photos'', ''missing.compressed'']
   \<and> get_output_path example_registry missing_config (input_path missing_config) None False = [''out'', ''result.png'']"
  by (simp add: process_image_def process_image_body_def handler_defs fs_defs config_defs path_defs
      example_data_defs Let_def)

text \<open>
  C7 (amended). Every call whose input path has a file name returns a result; a failed
  result has a non-null error, compressed size 0, format \<open>UNKNOWN\<close>, and as output
  path the input path with its suffix replaced by \<open>.compressed\<close>: a placeholder
  computed from the input path alone, whatever the destination was.
\<close>

theorem C7_failed_result_carries_placeholder_path:
  assumes "path_name (input_path config) \<noteq> []"
  shows "\<exists>r fs'. process_image codec app fs config = (Inr r, fs')
           \<and> (\<not> success r \<longrightarrow>
                error r \<noteq> None \<and> res_input_path r = input_path config
                \<and> res_output_path r =
                     path_join (path_parent (input_path config))
                       (path_stem (input_path config) @ ''.compressed'')
                \<and> compressed_size r = 0 \<and> format_used r = ''UNKNOWN'')"
proof -
  from process_image_total [OF assms]
  obtain r fs' where ev: "process_image codec app fs config = (Inr r, fs')" by blast
  from process_image_failed_fields [OF ev] ev show ?thesis by blast
qed

theorem C7_failed_result_carries_placeholder_path_witness:
  "path_name (input_path missing_config) \<noteq> []
   \<and> (\<exists>r fs'. process_image (example_codec (Saved [])) default_app_config Map.empty missing_config = (Inr r, fs')
         \<and> \<not> success r \<and> error r \<noteq> None
         \<and> res_output_path r = [''photos'', ''missing.compressed''])"
proof -
  have h: "path_name (input_path missing_config) \<noteq> []"
    by (simp add: example_data_defs config_defs path_defs)
  have f: "map_sum id success (fst (process_image (example_codec (Saved [])) default_app_config Map.empty missing_config)) = Inr False"
    by (simp add: process_image_def process_image_body_def handler_defs fs_defs config_defs path_defs
      example_data_defs Let_def)
  have p: "path_join (path_parent (input_path missing_config)) (path_stem (input_path missing_config) @ ''.compressed'')
            = [''photos'', ''missing.compressed'']"
    by (simp add: example_data_defs config_defs path_defs)
  from C7_failed_result_carries_placeholder_path [OF h, of "example_codec (Saved [])" default_app_config Map.empty]
  obtain r fs' where ev: "process_image (example_codec (Saved [])) default_app_config Map.empty missing_config = (Inr r, fs')"
    and sh: "\<not> success r \<longrightarrow> error r \<noteq> None \<and> res_input_path r = input_path missing_config
                \<and> res_output_path r = path_join (path_parent (input_path missing_config))
                       (path_stem (input_path missing_config) @ ''.compressed'')
                \<and> compressed_size r = 0 \<and> format_used r = ''UNKNOWN''"
    by blast
  from f ev have "\<not> success r" by simp
  with sh p ev h show ?thesis by auto
qed

section \<open>The skip guard of the selector\<close>

text \<open>
  A decision the selector returns in lossless mode (or without a configuration) has
  \<open>skip_compression\<close> set exactly when the skip guard holds, the guard is the
  disjunction of the three size tests, and for a metadata format that the codec registers
  a guarded input does yield a skip decision.
\<close>

lemma CompressionDecision_new_fields:
  assumes "CompressionDecision_new reg st q f rsn sk = Inr d"
  shows "skip_compression d = sk" and "recommended_quality d = q" and "reason d = rsn"
    and "strategy_type d = st"
  using assms
  by (auto simp add: CompressionDecision_new_def split: if_splits option.splits)

lemma try_original_format_optimization_no_skip:
  assumes "try_original_format_optimization reg metadata = Inr (Some d)"
  shows "\<not> skip_compression d"
  using assms
  by (auto simp add: try_original_format_optimization_def Let_def map_sum_def
      split: if_splits sum.splits dest: CompressionDecision_new_fields(1))

lemma handle_simple_graphic_no_skip:
  assumes "handle_simple_graphic reg metadata = Inr d"
  shows "\<not> skip_compression d"
  using assms
  by (auto simp add: handle_simple_graphic_def Let_def
      split: if_splits dest: CompressionDecision_new_fields(1))

lemma make_decision_skip:
  assumes "make_decision reg app self fs metadata = Inr d"
  shows "skip_compression d = should_skip_compression metadata"
proof (cases "should_skip_compression metadata")
  case True
  with assms show ?thesis
    by (auto simp add: make_decision_def dest: CompressionDecision_new_fields(1))
next
  case False
  with assms have "\<not> skip_compression d"
    by (auto simp add: make_decision_def Let_def
        split: if_splits bool.splits
        dest: CompressionDecision_new_fields(1) handle_simple_graphic_no_skip)
  with False show ?thesis by simp
qed

lemma analyze_and_decide_skip:
  assumes "analyze_and_decide reg app self metadata = Inr d"
  shows "skip_compression d = should_skip_compression metadata"
proof (cases "should_skip_compression metadata")
  case True
  with assms show ?thesis
    by (auto simp add: analyze_and_decide_def Let_def dest: CompressionDecision_new_fields(1))
next
  case False
  with assms show ?thesis
    by (auto simp add: analyze_and_decide_def Let_def
        split: sum.splits option.splits
        dest: try_original_format_optimization_no_skip make_decision_skip)
qed

lemma select_optimal_lossless_skip:
  assumes "select_optimal reg app self metadata config = Inr d"
      and "config = None \<or> (\<exists>c. config = Some c \<and> quality_mode c = LOSSLESS)"
  shows "skip_compression d = should_skip_compression metadata"
  using assms
  by (auto simp add: select_optimal_def dest: analyze_and_decide_skip)

lemma should_skip_compression_guard:
  "should_skip_compression metadata \<longleftrightarrow>
     file_size (basic_info metadata) < 5 * 1024
     \<or> (format (basic_info metadata) \<in> {''WEBP'', ''JPEG''} \<and> file_size (basic_info metadata) < 50 * 1024)
     \<or> (format (basic_info metadata) = ''PNG'' \<and> file_size (basic_info metadata) < 100 * 1024
         \<and> (if 0 < width (basic_info metadata) * height (basic_info metadata)
              then real_of_int (file_size (basic_info metadata))
                   / real_of_int (width (basic_info metadata) * height (basic_info metadata)) < 1.5
              else True))"
  by (auto simp add: should_skip_compression_def Let_def)

lemma skip_decision_for_registered_format:
  assumes "should_skip_compression metadata"
      and "upper (format (basic_info metadata)) \<in> supported_formats reg"
      and "config = None \<or> (\<exists>c. config = Some c \<and> quality_mode c = LOSSLESS)"
  shows "\<exists>d. select_optimal reg app self metadata config = Inr d \<and> skip_compression d"
  using assms
  by (auto simp add: select_optimal_def analyze_and_decide_def CompressionDecision_new_def Let_def)

text \<open>
  C2 (the code at the failing input). The metadata of a 1.2 KB file whose format the
  extractor left as \<open>UNKNOWN\<close> satisfies the skip guard, and \<open>select_optimal\<close>, with or
  without a lossless configuration, returns no decision: the skip branch of
  \<open>_analyze_and_decide\<close> passes the metadata format as \<open>recommended_format\<close>, and the
  validator of \<open>CompressionDecision\<close> rejects a name that is not a registered format.
\<close>

theorem C2_tiny_file_of_unknown_format_raises:
  "file_size (basic_info tiny_unknown_metadata) < 5 * 1024
   \<and> should_skip_compression tiny_unknown_metadata
   \<and> select_optimal example_registry default_app_config default_strategy tiny_unknown_metadata None
        = Inl (PydanticError (msg_unsupported_recommended @ ''UNKNOWN''))
   \<and> select_optimal example_registry default_app_config default_strategy tiny_unknown_metadata
        (Some (CompressionConfig_default [''icons'', ''dot'']))
        = Inl (PydanticError (msg_unsupported_recommended @ ''UNKNOWN''))"
  by (simp add: tiny_unknown_metadata_def default_strategy_def select_optimal_def analyze_and_decide_def
      should_skip_compression_def CompressionDecision_new_def supported_formats_def
      example_registry_def CompressionConfig_default_def str_defs Let_def)

section \<open>Post-processing\<close>





text \<open>
  When the destination is the input file itself, the fallback deletes the encoded file
  and then cannot copy the input, which is the file it has just deleted: the error is
  logged, the call reports success with the oversized figure, and no file is left.
\<close>

lemma in_place_fallback_loses_the_input:
  "fst (process_image (example_codec (Saved (replicate 310000 0))) default_app_config webp_fs
          (webp_config\<lparr>output_path := Some [''photos'', ''a.webp'']\<rparr>))
     = Inr \<lparr>success = True, error = None, res_input_path = [''photos'', ''a.webp''],
             res_output_path = [''photos'', ''a.webp''],
             original_size = 300000, compressed_size = 310000,
             format_used = ''WEBP'', quality_used = Some 85, was_resized = False,
             original_dimensions = Some (800, 600), final_dimensions = Some (800, 600)\<rparr>
   \<and> snd (process_image (example_codec (Saved (replicate 310000 0))) default_app_config webp_fs
            (webp_config\<lparr>output_path := Some [''photos'', ''a.webp'']\<rparr>)) [''photos'', ''a.webp'']
     = None"
  by (simp add: all_defs example_data_defs Let_def)

section \<open>The no-growth invariant\<close>




section \<open>Auto-selected quality\<close>

text \<open>
  Post-processing under a configuration that carries a custom quality: no rename, and a
  fallback that compares with 1.02 times the original size.
\<close>

lemma fallback_step_custom_eval:
  assumes "custom_quality config = Some q"
      and "fs (input_path config) = Some b" and "b \<noteq> []"
  shows "fallback_step (fs(out \<mapsto> enc)) config out (int (length b)) (int (length enc)) =
           (if real (length enc) > real (length b) * 1.02 then
              (if out = input_path config then (Inr (int (length enc)), fs(out := None))
               else (Inr (int (length b)), fs(out \<mapsto> b)))
            else (Inr (int (length enc)), fs(out \<mapsto> enc)))"
  using assms
  by (auto simp add: fallback_step_def fallback_threshold_def unlink_def copy2_def samefile_def)

lemma rename_step_custom:
  assumes "quality_mode config = CUSTOM"
  shows "rename_step reg fs config out osize csize target = (out, fs)"
  using assms by (simp add: rename_step_def should_use_original_name_def)

text \<open>
  C8. A call in auto mode (no target format, lossless mode) for which the selector returns
  a decision that does not skip and carries a recommended quality \<open>q\<close>: the
  configuration \<open>_apply_strategy_decision\<close> returns is in custom mode with custom
  quality \<open>q\<close>, and it is the configuration the call compresses and post-processes
  with. When the input decodes and is prepared and the save succeeds with the bytes
  \<open>enc\<close>, the call returns the result below: the output path is the destination
  computed from that configuration and is not renamed, and the encoded file is replaced
  by a copy of the input exactly when its size exceeds 1.02 times the original size (a
  size between 1.005 and 1.02 times the original is kept). When the destination is the
  input file the copy fails, so the encoded size is reported and no file is left.
\<close>

theorem C8_auto_quality_runs_in_custom_mode:
  assumes "\<not> truthy_str (target_format config)"
      and "quality_mode config = LOSSLESS"
      and "select_optimal (registered_extensions codec) app
             (CompressionStrategy_init app None None None) metadata (Some config) = Inr decision"
      and "\<not> skip_compression decision"
      and "recommended_quality decision = Some q"
      and "config' = apply_strategy_decision config decision"
      and "target = choose_target_format config' metadata"
      and "dest = get_output_path (registered_extensions codec) config' (input_path config) None False"
      and "fs (input_path config) = Some b"
      and "b \<noteq> []"
      and "extract_metadata codec fs (input_path config) = Inr metadata"
      and "decode codec b = Inr img"
      and "process_image_pixels codec img config' target = Inr (pimg, rz, dims)"
      and "map_of (registered_extensions codec) (lower (path_suffix dest)) = Some fmt"
      and "encode codec fmt pimg target config' metadata (fst (get_save_parameters target config'))
             = Saved enc"
  shows "quality_mode config' = CUSTOM \<and> custom_quality config' = Some q
         \<and> fallback_threshold config' = 1.02
         \<and> \<not> should_use_original_name config' (int (length b)) (int (length enc))
         \<and> process_image codec app fs config =
             (Inr \<lparr>success = True, error = None, res_input_path = input_path config,
                   res_output_path = dest,
                   original_size = int (length b),
                   compressed_size =
                     (if real (length enc) > real (length b) * 1.02 \<and> dest \<noteq> input_path config
                      then int (length b) else int (length enc)),
                   format_used = target,
                   quality_used = snd (get_save_parameters target config'),
                   was_resized = rz, original_dimensions = Some dims,
                   final_dimensions = Some (img_size pimg)\<rparr>,
              if real (length enc) > real (length b) * 1.02
              then (if dest = input_path config then fs(dest := None) else fs(dest \<mapsto> b))
              else fs(dest \<mapsto> enc))"
proof -
  have cm: "quality_mode config' = CUSTOM" and cq: "custom_quality config' = Some q"
    and ip: "input_path config' = input_path config"
    using assms(5,6) by (simp_all add: apply_strategy_decision_def Let_def)
  have stage: "strategy_stage codec app config metadata = Inr (Compress config')"
    using assms(1-4,6) by (simp add: strategy_stage_def)
  from extract_metadata_file [OF assms(11)] assms(9)
  have osz: "file_size (basic_info metadata) = int (length b)" by auto
  have eq: "effective_quality config' = Some q"
    using cm cq by (simp add: effective_quality_def)
  obtain bp aq where gp: "get_save_parameters target config' = (bp, aq)"
    by (cases "get_save_parameters target config'") auto
  have ns: "\<not> truthy (bp ''skip_processing'')"
    using no_skip_marker_with_quality [OF eq, of target] gp by simp
  have op: "image_open codec fs (input_path config') = Inr img"
    using assms(9,12) ip by (simp add: image_open_def)
  have sv: "image_save codec fs pimg dest target config' metadata bp = (Inr (), fs(dest \<mapsto> enc))"
    using image_save_saved_eval [OF assms(14,15)] gp by simp
  have fb: "fallback_step (fs(dest \<mapsto> enc)) config' dest (int (length b)) (int (length enc)) =
           (if real (length enc) > real (length b) * 1.02 then
              (if dest = input_path config then (Inr (int (length enc)), fs(dest := None))
               else (Inr (int (length b)), fs(dest \<mapsto> b)))
            else (Inr (int (length enc)), fs(dest \<mapsto> enc)))"
    using fallback_step_custom_eval [where fs = fs and config = config', OF cq _ assms(10)] assms(9) ip
    by simp
  have pp: "post_process_result (registered_extensions codec) (fs(dest \<mapsto> enc)) config' dest
              (int (length b)) (int (length enc)) target =
           (if real (length enc) > real (length b) * 1.02 then
              (if dest = input_path config then (Inr (dest, int (length enc)), fs(dest := None))
               else (Inr (dest, int (length b)), fs(dest \<mapsto> b)))
            else (Inr (dest, int (length enc)), fs(dest \<mapsto> enc)))"
    using fb rename_step_custom [OF cm] by (simp add: post_process_result_def)
  have out: "get_output_path (registered_extensions codec) config' (input_path config') None False = dest"
    using assms(8) ip by simp
  have ci: "compress_image codec fs config' metadata =
             (Inr \<lparr>success = True, error = None, res_input_path = input_path config,
                   res_output_path = dest,
                   original_size = int (length b),
                   compressed_size =
                     (if real (length enc) > real (length b) * 1.02 \<and> dest \<noteq> input_path config
                      then int (length b) else int (length enc)),
                   format_used = target,
                   quality_used = snd (get_save_parameters target config'),
                   was_resized = rz, original_dimensions = Some dims,
                   final_dimensions = Some (img_size pimg)\<rparr>,
              if real (length enc) > real (length b) * 1.02
              then (if dest = input_path config then fs(dest := None) else fs(dest \<mapsto> b))
              else fs(dest \<mapsto> enc))"
    unfolding compress_image_def Let_def out assms(7) [symmetric] osz
    using op assms(13) ns sv pp gp ip
    by (simp add: stat_size_def)
  have "process_image_body codec app fs config = compress_image codec fs config' metadata"
    using assms(9,11) stage by (simp add: process_image_body_def path_exists_def)
  with ci cm cq show ?thesis
    by (simp add: process_image_def fallback_threshold_def should_use_original_name_def)
qed

theorem C8_auto_quality_runs_in_custom_mode_witness:
  "\<not> truthy_str (target_format webp_config) \<and> quality_mode webp_config = LOSSLESS
   \<and> webp_fs (input_path webp_config) = Some (replicate 300000 0)
   \<and> extract_metadata (example_codec (Saved (replicate 303000 0))) webp_fs (input_path webp_config)
        = Inr webp_metadata
   \<and> select_optimal example_registry default_app_config default_strategy webp_metadata
        (Some webp_config) = Inr webp_quality_decision
   \<and> recommended_quality webp_quality_decision = Some 85
   \<and> process_image (example_codec (Saved (replicate 303000 0))) default_app_config webp_fs
        webp_config
       = (Inr \<lparr>success = True, error = None, res_input_path = [''photos'', ''a.webp''],
               res_output_path = [''photos'', ''a_compress_85.webp''],
               original_size = 300000, compressed_size = 303000,
               format_used = ''WEBP'', quality_used = Some 85, was_resized = False,
               original_dimensions = Some (800, 600), final_dimensions = Some (800, 600)\<rparr>,
          webp_fs([''photos'', ''a_compress_85.webp''] \<mapsto> replicate 303000 0))"
proof -
  let ?codec = "example_codec (Saved (replicate 303000 0))"
  let ?cfg' = "apply_strategy_decision webp_config webp_quality_decision"
  have h1: "\<not> truthy_str (target_format webp_config)"
    by (simp add: example_data_defs config_defs)
  have h2: "quality_mode webp_config = LOSSLESS"
    by (simp add: example_data_defs config_defs)
  have h3: "select_optimal (registered_extensions ?codec) default_app_config
             (CompressionStrategy_init default_app_config None None None) webp_metadata
             (Some webp_config) = Inr webp_quality_decision"
    by (simp add: strategy_defs example_defs example_data_defs config_defs str_defs Let_def)
  have h4: "\<not> skip_compression webp_quality_decision"
    by (simp add: webp_quality_decision_def)
  have h5: "recommended_quality webp_quality_decision = Some 85"
    by (simp add: webp_quality_decision_def)
  have tgt: "choose_target_format ?cfg' webp_metadata = ''WEBP''"
    by (simp add: choose_target_format_def apply_strategy_decision_def example_data_defs
        config_defs Let_def)
  have dst: "get_output_path (registered_extensions ?codec) ?cfg' (input_path webp_config) None False
               = [''photos'', ''a_compress_85.webp'']"
    by (simp add: apply_strategy_decision_def example_defs example_data_defs config_defs
        path_defs str_defs Let_def)
  have h9: "webp_fs (input_path webp_config) = Some (replicate 300000 0)"
    by (simp add: example_data_defs config_defs)
  have h10: "replicate 300000 (0 :: 8 word) \<noteq> []" by simp
  have h11: "extract_metadata ?codec webp_fs (input_path webp_config) = Inr webp_metadata"
    by (simp add: extract_defs fs_defs example_defs example_data_defs config_defs
        path_defs str_defs Let_def)
  have h12: "decode ?codec (replicate 300000 0) = Inr example_image"
    by (simp add: example_codec_def)
  have h13: "process_image_pixels ?codec example_image ?cfg' ''WEBP'' = Inr (example_image, False, (800, 600))"
    by (simp add: process_image_pixels_def apply_strategy_decision_def example_defs
        example_data_defs config_defs Let_def)
  have h14: "map_of (registered_extensions ?codec) (lower (path_suffix [''photos'', ''a_compress_85.webp'']))
               = Some ''WEBP''"
    by (simp add: example_defs path_defs str_defs)
  have h15: "encode ?codec ''WEBP'' example_image ''WEBP'' ?cfg' webp_metadata
               (fst (get_save_parameters ''WEBP'' ?cfg')) = Saved (replicate 303000 0)"
    by (simp add: example_codec_def)
  have q: "snd (get_save_parameters ''WEBP'' ?cfg') = Some 85"
    by (simp add: apply_strategy_decision_def format_defs example_data_defs config_defs Let_def)
  have ip: "input_path webp_config = [''photos'', ''a.webp'']"
    by (simp add: example_data_defs config_defs)
  from C8_auto_quality_runs_in_custom_mode [where codec = ?codec and app = default_app_config
      and fs = webp_fs and config = webp_config and metadata = webp_metadata
      and decision = webp_quality_decision and config' = ?cfg' and target = "''WEBP''"
      and dest = "[''photos'', ''a_compress_85.webp'']" and b = "replicate 300000 0"
      and enc = "replicate 303000 0",
      OF h1 h2 h3 h4 h5 refl tgt [symmetric] dst [symmetric] h9 h10 h11 h12 h13 h14 h15]
  have "process_image ?codec default_app_config webp_fs webp_config
       = (Inr \<lparr>success = True, error = None, res_input_path = [''photos'', ''a.webp''],
               res_output_path = [''photos'', ''a_compress_85.webp''],
               original_size = 300000, compressed_size = 303000,
               format_used = ''WEBP'', quality_used = Some 85, was_resized = False,
               original_dimensions = Some (800, 600), final_dimensions = Some (800, 600)\<rparr>,
          webp_fs([''photos'', ''a_compress_85.webp''] \<mapsto> replicate 303000 0))"
    by (simp add: q ip example_image_def)
  with h1 h2 h9 h11 h3 h5 show ?thesis
    by (simp add: example_defs default_strategy_def)
qed

section \<open>JPEG input in lossless mode\<close>




section \<open>The target format for an unrecognised input\<close>


text \<open>
  With an explicit quality and no output path, the destination keeps the extension of the
  input, which is not registered, so the save raises before it opens the file and the
  call fails.
\<close>

lemma unrecognised_input_without_output_path_fails:
  "get_output_path example_registry scan_custom_config (input_path scan_custom_config) None False
     = [''scans'', ''page_compress_80.dat'']
   \<and> process_image_body (example_codec (Saved (replicate 9000 0))) default_app_config scan_fs
        scan_custom_config
     = (Inl (ValueError ''unknown file extension: .dat''), scan_fs)
   \<and> map_sum id success
        (fst (process_image (example_codec (Saved (replicate 9000 0))) default_app_config scan_fs
               scan_custom_config)) = Inr False
   \<and> map_sum id format_used
        (fst (process_image (example_codec (Saved (replicate 9000 0))) default_app_config scan_fs
               scan_custom_config)) = Inr ''UNKNOWN''"
  by (simp add: all_defs example_data_defs Let_def)



section \<open>A failing save\<close>




text \<open>
  A destination that is the placeholder path itself is never opened.
\<close>

lemma failed_encode_at_the_placeholder_path:
  "map_sum id res_output_path
     (fst (process_image (example_codec disk_full) default_app_config poster_fs
            (poster_config [''photos'', ''poster.compressed''])))
     = Inr [''photos'', ''poster.compressed'']
   \<and> snd (process_image (example_codec disk_full) default_app_config poster_fs
            (poster_config [''photos'', ''poster.compressed''])) = poster_fs
   \<and> process_image_body (example_codec disk_full) default_app_config poster_fs
        (poster_config [''photos'', ''poster.compressed''])
       = (Inl (ValueError ''unknown file extension: .compressed''), poster_fs)"
  by (simp add: all_defs example_data_defs Let_def)

end
